theory Spec2Isabelle
  imports Main "HOL-Library.AList"
begin

section \<open>JSON values and the Python operations applied to them\<close>

text \<open>
  The credential document, the OAuth record and the token response are whatever
  \<^verbatim>\<open>json.load\<close> and \<^verbatim>\<open>response.json()\<close> return: dynamically typed values. A
  dictionary is an association list in insertion order (keys are unique after
  parsing; lookup and update below agree with Python also when they are not).
  A string is a sequence of code points below 256. Numbers with a fraction or
  an exponent (Python floats) are outside the model.
\<close>

datatype json =
    JNull
  | JBool bool
  | JInt int
  | JStr string
  | JList "json list"
  | JObj "(string \<times> json) list"

datatype py_error = TypeError | KeyError | AttributeError | ValueError

text \<open>Sequencing of computations that may raise: the first exception wins.\<close>

definition and_then :: "py_error + 'a \<Rightarrow> ('a \<Rightarrow> py_error + 'b) \<Rightarrow> py_error + 'b" where
  "and_then r f = (case r of Inl e \<Rightarrow> Inl e | Inr x \<Rightarrow> f x)"

text \<open>Truth value of an object (\<^verbatim>\<open>if not x\<close>).\<close>

fun truthy :: "json \<Rightarrow> bool" where
  "truthy JNull = False"
| "truthy (JBool b) = b"
| "truthy (JInt n) = (n \<noteq> 0)"
| "truthy (JStr s) = (s \<noteq> [])"
| "truthy (JList xs) = (xs \<noteq> [])"
| "truthy (JObj kvs) = (kvs \<noteq> [])"

fun starts_with :: "string \<Rightarrow> string \<Rightarrow> bool" where
  "starts_with [] ys = True"
| "starts_with (x # xs) [] = False"
| "starts_with (x # xs) (y # ys) = (x = y \<and> starts_with xs ys)"

fun contains_str :: "string \<Rightarrow> string \<Rightarrow> bool" where
  "contains_str xs [] = (xs = [])"
| "contains_str xs (y # ys) = (starts_with xs (y # ys) \<or> contains_str xs ys)"

text \<open>
  \<^verbatim>\<open>key in x\<close> for a string key: key membership in a dict, element membership
  in a list, substring test in a string, TypeError on None, a bool or an int.
\<close>

fun py_contains :: "string \<Rightarrow> json \<Rightarrow> py_error + bool" where
  "py_contains k (JObj kvs) = Inr (map_of kvs k \<noteq> None)"
| "py_contains k (JList xs) = Inr (JStr k \<in> set xs)"
| "py_contains k (JStr s) = Inr (contains_str k s)"
| "py_contains k JNull = Inl TypeError"
| "py_contains k (JBool b) = Inl TypeError"
| "py_contains k (JInt n) = Inl TypeError"

text \<open>\<^verbatim>\<open>x[key]\<close> for a string key: KeyError on a dict without it, TypeError elsewhere.\<close>

fun py_getitem :: "json \<Rightarrow> string \<Rightarrow> py_error + json" where
  "py_getitem (JObj kvs) k = (case map_of kvs k of None \<Rightarrow> Inl KeyError | Some v \<Rightarrow> Inr v)"
| "py_getitem JNull k = Inl TypeError"
| "py_getitem (JBool b) k = Inl TypeError"
| "py_getitem (JInt n) k = Inl TypeError"
| "py_getitem (JStr s) k = Inl TypeError"
| "py_getitem (JList xs) k = Inl TypeError"

text \<open>
  \<^verbatim>\<open>x[key] = v\<close>: an existing key keeps its position, a new key goes to the end,
  as \<open>AList.update\<close> does.
\<close>

fun py_setitem :: "json \<Rightarrow> string \<Rightarrow> json \<Rightarrow> py_error + json" where
  "py_setitem (JObj kvs) k v = Inr (JObj (AList.update k v kvs))"
| "py_setitem JNull k v = Inl TypeError"
| "py_setitem (JBool b) k v = Inl TypeError"
| "py_setitem (JInt n) k v = Inl TypeError"
| "py_setitem (JStr s) k v = Inl TypeError"
| "py_setitem (JList xs) k v = Inl TypeError"

text \<open>\<^verbatim>\<open>x.get(key, default)\<close>: only a dict has the method.\<close>

fun py_get :: "json \<Rightarrow> string \<Rightarrow> json \<Rightarrow> py_error + json" where
  "py_get (JObj kvs) k d = Inr (case map_of kvs k of None \<Rightarrow> d | Some v \<Rightarrow> v)"
| "py_get JNull k d = Inl AttributeError"
| "py_get (JBool b) k d = Inl AttributeError"
| "py_get (JInt n) k d = Inl AttributeError"
| "py_get (JStr s) k d = Inl AttributeError"
| "py_get (JList xs) k d = Inl AttributeError"

text \<open>
  The value of an object in integer arithmetic and in a comparison with an
  integer: a bool counts as 0 or 1, anything that is not a number raises.
\<close>

fun py_int :: "json \<Rightarrow> py_error + int" where
  "py_int (JInt n) = Inr n"
| "py_int (JBool b) = Inr (if b then 1 else 0)"
| "py_int JNull = Inl TypeError"
| "py_int (JStr s) = Inl TypeError"
| "py_int (JList xs) = Inl TypeError"
| "py_int (JObj kvs) = Inl TypeError"

text \<open>
  \<^verbatim>\<open>s.split()\<close>: the maximal runs of non-whitespace characters. Whitespace
  below code point 256 is 9 to 13, 28 to 32, 133 and 160.
\<close>

definition is_space :: "char \<Rightarrow> bool" where
  "is_space c = (let n = (of_char c :: nat) in
     (9 \<le> n \<and> n \<le> 13) \<or> (28 \<le> n \<and> n \<le> 32) \<or> n = 133 \<or> n = 160)"

fun split_ws :: "string \<Rightarrow> string \<Rightarrow> string list" where
  "split_ws acc [] = (if acc = [] then [] else [acc])"
| "split_ws acc (c # cs) =
     (if is_space c then (if acc = [] then split_ws [] cs else acc # split_ws [] cs)
      else split_ws (acc @ [c]) cs)"

definition str_split :: "string \<Rightarrow> string list" where
  "str_split s = split_ws [] s"

fun py_split :: "json \<Rightarrow> py_error + json" where
  "py_split (JStr s) = Inr (JList (map JStr (str_split s)))"
| "py_split JNull = Inl AttributeError"
| "py_split (JBool b) = Inl AttributeError"
| "py_split (JInt n) = Inl AttributeError"
| "py_split (JList xs) = Inl AttributeError"
| "py_split (JObj kvs) = Inl AttributeError"

text \<open>Reading a field of an object, for stating properties: None when absent.\<close>

fun field :: "json \<Rightarrow> string \<Rightarrow> json option" where
  "field (JObj kvs) k = map_of kvs k"
| "field JNull k = None"
| "field (JBool b) k = None"
| "field (JInt n) k = None"
| "field (JStr s) k = None"
| "field (JList xs) k = None"

section \<open>Paths, files and the environment of a run\<close>

text \<open>
  A path is its list of components. \<^verbatim>\<open>Path.with_suffix\<close> replaces the suffix
  of the last component: the part from its last dot, when that dot is neither
  the first nor the last character; with no suffix the new one is appended.
\<close>

type_synonym path = "string list"

definition name_suffix :: "string \<Rightarrow> string" where
  "name_suffix name =
     (let t = length (takeWhile (\<lambda>c. c \<noteq> CHR ''.'') (rev name))
      in if CHR ''.'' \<in> set name \<and> 0 < t \<and> Suc t < length name
         then drop (length name - Suc t) name else [])"

definition with_suffix :: "path \<Rightarrow> string \<Rightarrow> py_error + path" where
  "with_suffix p s =
     (if p = [] \<or> last p = [] then Inl ValueError
      else let name = last p; old_suffix = name_suffix name
           in Inr (butlast p @ [take (length name - length old_suffix) name @ s]))"

text \<open>
  The content of a regular file is identified with what \<^verbatim>\<open>json.load\<close> makes
  of it: the document it parses to, or \<open>Garbage\<close> when parsing raises.
  \<^verbatim>\<open>json.dump\<close> of a document leaves a file that parses to that document; a
  dump that breaks off leaves a truncated text, which does not parse.
\<close>

datatype content = Json json | Garbage

text \<open>What happens when a path is opened for writing and a document dumped to it.\<close>

datatype write_fault = WriteOk | OpenFails | DumpFails

datatype http_result = HttpResponse nat "json option" | TransportError

text \<open>
  The state a run changes: the regular files, the POST requests sent (URL and
  JSON body) and the attempts to open a file for writing, each with its outcome.
\<close>

record world =
  files :: "path \<Rightarrow> content option"
  posts :: "(string \<times> json) list"
  opens :: "(path \<times> write_fault) list"

text \<open>
  What a run reads from its environment: the two directories, whether a file
  can be opened for reading, how a write to a path ends, the answer of the
  token endpoint (status code and the body as JSON, when it is JSON), the clock
  at its three readings (milliseconds at lines 121 and 192, seconds at line
  277), and whether \<^verbatim>\<open>datetime.fromtimestamp\<close> accepts a time, given in
  milliseconds (it raises beyond the year 9999 and outside the platform's range).
\<close>

record env =
  base_dir :: path
  home_dir :: path
  read_ok :: "path \<Rightarrow> bool"
  write_fault :: "path \<Rightarrow> write_fault"
  endpoint :: "json \<Rightarrow> http_result"
  clock_check :: int
  clock_merge :: int
  clock_report :: int
  datetime_ok :: "int \<Rightarrow> bool"

section \<open>The refresher\<close>

definition CLAUDE_TOKEN_URL :: string where
  "CLAUDE_TOKEN_URL = ''https://console.anthropic.com/v1/oauth/token''"

definition CLAUDE_CLIENT_ID :: string where
  "CLAUDE_CLIENT_ID = ''9d1c250a-e61b-44d9-88ed-5944d1962f5e''"

definition oauth_keys :: "string list" where
  "oauth_keys = [''claudeAiOauth'', ''oauthAccount'', ''oauth'']"

subsection \<open>find_claude_config and load_config\<close>

definition search_paths :: "env \<Rightarrow> path list" where
  "search_paths e =
     [base_dir e @ [''.claude'', ''.credentials.json''],
      base_dir e @ [''.claude.json''],
      home_dir e @ [''.claude'', ''.credentials.json''],
      home_dir e @ [''.claude.json'']]"

definition find_claude_config :: "env \<Rightarrow> world \<Rightarrow> path option" where
  "find_claude_config e w = List.find (\<lambda>p. files w p \<noteq> None) (search_paths e)"

text \<open>
  \<open>load_config\<close> gives the located path and the parsed document, or None where
  the source returns False (nothing found, the file cannot be opened, or it
  does not parse).
\<close>

definition load_config :: "env \<Rightarrow> world \<Rightarrow> (path \<times> json) option" where
  "load_config e w =
     (case find_claude_config e w of
        None \<Rightarrow> None
      | Some p \<Rightarrow>
          if \<not> read_ok e p then None
          else (case files w p of Some (Json d) \<Rightarrow> Some (p, d) | _ \<Rightarrow> None))"

subsection \<open>get_oauth_config\<close>

fun probe_keys :: "string list \<Rightarrow> json \<Rightarrow> py_error + json option" where
  "probe_keys [] config_data = Inr None"
| "probe_keys (key # keys) config_data =
     (case py_contains key config_data of
        Inl err \<Rightarrow> Inl err
      | Inr False \<Rightarrow> probe_keys keys config_data
      | Inr True \<Rightarrow>
          (case py_getitem config_data key of
             Inl err \<Rightarrow> Inl err
           | Inr oauth_config \<Rightarrow>
               (case py_contains ''refreshToken'' oauth_config of
                  Inl err \<Rightarrow> Inl err
                | Inr True \<Rightarrow> Inr (Some oauth_config)
                | Inr False \<Rightarrow> probe_keys keys config_data)))"

definition get_oauth_config :: "json \<Rightarrow> py_error + json option" where
  "get_oauth_config config_data =
     (if \<not> truthy config_data then Inr None else probe_keys oauth_keys config_data)"

subsection \<open>is_token_expired\<close>

definition is_token_expired :: "env \<Rightarrow> json \<Rightarrow> py_error + bool" where
  "is_token_expired e expires_at =
     and_then (py_int expires_at) (\<lambda>x. Inr (clock_check e > x))"

subsection \<open>refresh_token\<close>

text \<open>
  One POST; every failure (transport, a status other than 200, a body that is
  not JSON) is caught inside and gives None.
\<close>

definition refresh_payload :: "json \<Rightarrow> json" where
  "refresh_payload refresh_token =
     JObj [(''grant_type'', JStr ''refresh_token''),
           (''refresh_token'', refresh_token),
           (''client_id'', JStr CLAUDE_CLIENT_ID)]"

definition refresh_token :: "env \<Rightarrow> json \<Rightarrow> world \<Rightarrow> json option \<times> world" where
  "refresh_token e rt w =
     (let payload = refresh_payload rt;
          w' = w\<lparr>posts := posts w @ [(CLAUDE_TOKEN_URL, payload)]\<rparr>
      in (case endpoint e payload of
            TransportError \<Rightarrow> None
          | HttpResponse status body \<Rightarrow> (if status = 200 then body else None),
          w'))"

subsection \<open>update_config\<close>

text \<open>Lines 180 to 184: the first of the three keys that the document has.\<close>

fun find_oauth_key :: "string list \<Rightarrow> json \<Rightarrow> py_error + string option" where
  "find_oauth_key [] config_data = Inr None"
| "find_oauth_key (key # keys) config_data =
     (case py_contains key config_data of
        Inl err \<Rightarrow> Inl err
      | Inr True \<Rightarrow> Inr (Some key)
      | Inr False \<Rightarrow> find_oauth_key keys config_data)"

text \<open>Lines 186 to 189: the key to update and the document, with the default created.\<close>

definition resolve_oauth_key :: "json \<Rightarrow> py_error + string \<times> json" where
  "resolve_oauth_key config_data =
     and_then (find_oauth_key oauth_keys config_data) (\<lambda>found.
       case found of
         Some key \<Rightarrow> Inr (key, config_data)
       | None \<Rightarrow>
           and_then (py_setitem config_data ''claudeAiOauth'' (JObj [])) (\<lambda>cd.
             Inr (''claudeAiOauth'', cd)))"

text \<open>Line 192, with the clock reading \<open>now\<close> in milliseconds.\<close>

definition new_expires_at :: "int \<Rightarrow> json \<Rightarrow> py_error + int" where
  "new_expires_at now new_token_data =
     and_then (py_get new_token_data ''expires_in'' (JInt 3600)) (\<lambda>v.
     and_then (py_int v) (\<lambda>n. Inr (now + n * 1000)))"

text \<open>Line 200.\<close>

definition new_scopes :: "json \<Rightarrow> json \<Rightarrow> py_error + json" where
  "new_scopes oauth_config new_token_data =
     and_then (py_get new_token_data ''scope'' JNull) (\<lambda>sc.
       if truthy sc
       then and_then (py_get new_token_data ''scope'' (JStr [])) py_split
       else py_get oauth_config ''scopes'' (JList []))"

text \<open>Lines 196 to 201: the four fields, evaluated and then written in this order.\<close>

definition update_tokens :: "int \<Rightarrow> json \<Rightarrow> json \<Rightarrow> py_error + json" where
  "update_tokens expires_at oauth_config new_token_data =
     and_then (py_getitem new_token_data ''access_token'') (\<lambda>access.
     and_then (py_get oauth_config ''refreshToken'' JNull) (\<lambda>old_refresh.
     and_then (py_get new_token_data ''refresh_token'' old_refresh) (\<lambda>refresh.
     and_then (new_scopes oauth_config new_token_data) (\<lambda>scopes.
     and_then (py_setitem oauth_config ''accessToken'' access) (\<lambda>c1.
     and_then (py_setitem c1 ''refreshToken'' refresh) (\<lambda>c2.
     and_then (py_setitem c2 ''expiresAt'' (JInt expires_at)) (\<lambda>c3.
     py_setitem c3 ''scopes'' scopes)))))))"

text \<open>Lines 204 to 206 and 208 to 210: two fields copied from a sub-object of the response.\<close>

definition copy_info ::
  "string \<Rightarrow> string \<Rightarrow> string \<Rightarrow> string \<Rightarrow> string \<Rightarrow> json \<Rightarrow> json \<Rightarrow> py_error + json" where
  "copy_info src k1 f1 k2 f2 oauth_config new_token_data =
     and_then (py_contains src new_token_data) (\<lambda>present.
       if \<not> present then Inr oauth_config
       else
         and_then (py_getitem new_token_data src) (\<lambda>sub1.
         and_then (py_getitem sub1 k1) (\<lambda>v1.
         and_then (py_setitem oauth_config f1 v1) (\<lambda>c1.
         and_then (py_getitem new_token_data src) (\<lambda>sub2.
         and_then (py_getitem sub2 k2) (\<lambda>v2.
         py_setitem c1 f2 v2))))))"

text \<open>Lines 195 to 210, on the record under the resolved key.\<close>

definition update_oauth_record :: "int \<Rightarrow> json \<Rightarrow> json \<Rightarrow> py_error + json" where
  "update_oauth_record expires_at oauth_config new_token_data =
     and_then (update_tokens expires_at oauth_config new_token_data) (\<lambda>c1.
     and_then (copy_info ''organization'' ''uuid'' ''organizationUuid''
                 ''name'' ''organizationName'' c1 new_token_data) (\<lambda>c2.
     copy_info ''account'' ''uuid'' ''accountUuid''
       ''email_address'' ''emailAddress'' c2 new_token_data))"

text \<open>
  Lines 180 to 210: the document as mutated in memory. The record is mutated
  in place, so the document holds the new record under the same key.
\<close>

definition merge_config :: "int \<Rightarrow> json \<Rightarrow> json \<Rightarrow> py_error + json" where
  "merge_config now config_data new_token_data =
     and_then (resolve_oauth_key config_data) (\<lambda>(oauth_key, cd).
     and_then (new_expires_at now new_token_data) (\<lambda>expires_at.
     and_then (py_getitem cd oauth_key) (\<lambda>oauth_config.
     and_then (update_oauth_record expires_at oauth_config new_token_data) (\<lambda>c.
     py_setitem cd oauth_key c))))"

text \<open>
  One \<^verbatim>\<open>with open(path, 'w') as f: json.dump(doc, f, indent=2)\<close>: True when
  it completed. Opening truncates, so a dump that breaks off leaves garbage.
\<close>

definition write_json :: "env \<Rightarrow> path \<Rightarrow> json \<Rightarrow> world \<Rightarrow> bool \<times> world" where
  "write_json e p doc w =
     (let w' = w\<lparr>opens := opens w @ [(p, write_fault e p)]\<rparr>
      in case write_fault e p of
           OpenFails \<Rightarrow> (False, w')
         | DumpFails \<Rightarrow> (False, w'\<lparr>files := (files w')(p \<mapsto> Garbage)\<rparr>)
         | WriteOk \<Rightarrow> (True, w'\<lparr>files := (files w')(p \<mapsto> Json doc)\<rparr>))"

text \<open>Lines 213 to 222: the backup, then the primary file.\<close>

definition write_files :: "env \<Rightarrow> path \<Rightarrow> json \<Rightarrow> world \<Rightarrow> bool \<times> world" where
  "write_files e config_file doc w =
     (case with_suffix config_file ''.json.backup'' of
        Inl err \<Rightarrow> (False, w)
      | Inr backup_file \<Rightarrow>
          (case write_json e backup_file doc w of
             (False, w1) \<Rightarrow> (False, w1)
           | (True, w1) \<Rightarrow> write_json e config_file doc w1))"

text \<open>The whole method: any exception is caught and gives False.\<close>

definition update_config :: "env \<Rightarrow> path \<Rightarrow> json \<Rightarrow> json \<Rightarrow> world \<Rightarrow> bool \<times> world" where
  "update_config e config_file config_data new_token_data w =
     (case merge_config (clock_merge e) config_data new_token_data of
        Inl err \<Rightarrow> (False, w)
      | Inr doc \<Rightarrow> write_files e config_file doc w)"

subsection \<open>run and the exit status\<close>

text \<open>A run returns True or False, or an exception leaves it uncaught.\<close>

datatype outcome = Returned bool | Raised py_error

text \<open>\<^verbatim>\<open>sys.exit(0 if success else 1)\<close>; an uncaught exception ends the process with 1.\<close>

fun exit_status :: "outcome \<Rightarrow> nat" where
  "exit_status (Returned True) = 0"
| "exit_status (Returned False) = 1"
| "exit_status (Raised err) = 1"

text \<open>
  Lines 252 to 254: the stored expiry, the date made of it for the report, and
  whether the token counts as expired.
\<close>

definition check_expiry :: "env \<Rightarrow> json \<Rightarrow> py_error + bool" where
  "check_expiry e oauth_config =
     and_then (py_get oauth_config ''expiresAt'' (JInt 0)) (\<lambda>expires_at.
     and_then (py_int expires_at) (\<lambda>x.
       if x > 0 then
         (if \<not> datetime_ok e x then Inl ValueError
          else is_token_expired e expires_at)
       else Inr True))"

text \<open>Lines 276 to 283.\<close>

definition finish :: "env \<Rightarrow> path \<Rightarrow> json \<Rightarrow> json \<Rightarrow> world \<Rightarrow> outcome \<times> world" where
  "finish e config_file config_data new_token_data w =
     (case update_config e config_file config_data new_token_data w of
        (False, w') \<Rightarrow> (Returned False, w')
      | (True, w') \<Rightarrow>
          (case and_then (py_get new_token_data ''expires_in'' (JInt 3600)) py_int of
             Inl err \<Rightarrow> (Raised err, w')
           | Inr n \<Rightarrow>
               if datetime_ok e ((clock_report e + n) * 1000)
               then (Returned True, w') else (Raised ValueError, w')))"

definition run :: "env \<Rightarrow> bool \<Rightarrow> world \<Rightarrow> outcome \<times> world" where
  "run e force w =
     (case load_config e w of
        None \<Rightarrow> (Returned False, w)
      | Some (config_file, config_data) \<Rightarrow>
          (case get_oauth_config config_data of
             Inl err \<Rightarrow> (Raised err, w)
           | Inr None \<Rightarrow> (Returned False, w)
           | Inr (Some oauth_config) \<Rightarrow>
               if \<not> truthy oauth_config then (Returned False, w)
               else
                 (case check_expiry e oauth_config of
                    Inl err \<Rightarrow> (Raised err, w)
                  | Inr is_expired \<Rightarrow>
                      if \<not> is_expired \<and> \<not> force then (Returned True, w)
                      else
                        (case py_get oauth_config ''refreshToken'' JNull of
                           Inl err \<Rightarrow> (Raised err, w)
                         | Inr rt \<Rightarrow>
                             if \<not> truthy rt then (Returned False, w)
                             else
                               (case refresh_token e rt w of
                                  (None, w1) \<Rightarrow> (Returned False, w1)
                                | (Some new_token_data, w1) \<Rightarrow>
                                    if \<not> truthy new_token_data then (Returned False, w1)
                                    else finish e config_file config_data new_token_data w1)))))"

section \<open>Observations used in the statements\<close>

text \<open>
  The key whose record \<open>update_config\<close> updates: the first of the three keys
  the document has, \<^verbatim>\<open>claudeAiOauth\<close> when it has none (lines 180 to 188).
\<close>

definition updated_key :: "json \<Rightarrow> string" where
  "updated_key config_data =
     (case find_oauth_key oauth_keys config_data of
        Inr (Some key) \<Rightarrow> key
      | _ \<Rightarrow> ''claudeAiOauth'')"

text \<open>The record under that key before the update, empty when the key is created.\<close>

definition old_record :: "json \<Rightarrow> json" where
  "old_record config_data =
     (case field config_data (updated_key config_data) of Some r \<Rightarrow> r | None \<Rightarrow> JObj [])"

text \<open>A field of the record under a top-level key of a document.\<close>

definition record_field :: "json \<Rightarrow> string \<Rightarrow> string \<Rightarrow> json option" where
  "record_field doc k f = (case field doc k of Some r \<Rightarrow> field r f | None \<Rightarrow> None)"

text \<open>
  What a file holds after a run: a top-level entry of its document, and a field
  of the record under a top-level key.
\<close>

definition stored_top :: "world \<Rightarrow> path \<Rightarrow> string \<Rightarrow> json option" where
  "stored_top w p k = (case files w p of Some (Json doc) \<Rightarrow> field doc k | _ \<Rightarrow> None)"

definition stored_field :: "world \<Rightarrow> path \<Rightarrow> string \<Rightarrow> string \<Rightarrow> json option" where
  "stored_field w p k f =
     (case files w p of Some (Json doc) \<Rightarrow> record_field doc k f | _ \<Rightarrow> None)"

section \<open>Concrete inputs\<close>

text \<open>
  An environment and a world to evaluate the program on: the working directory
  \<^verbatim>\<open>work\<close> holds \<^verbatim>\<open>.claude.json\<close>, every file can be read, the endpoint gives
  one fixed answer, and \<^verbatim>\<open>datetime.fromtimestamp\<close> accepts every time up to one
  day after the end of the year 9999 (no platform accepts more).
\<close>

definition cfg_path :: path where
  "cfg_path = [''work'', ''.claude.json'']"

definition backup_path :: path where
  "backup_path = [''work'', ''.claude.json.backup'']"

definition test_env :: "http_result \<Rightarrow> int \<Rightarrow> (path \<Rightarrow> write_fault) \<Rightarrow> env" where
  "test_env answer now faults =
     \<lparr>base_dir = [''work''], home_dir = [''home''], read_ok = (\<lambda>p. True),
      write_fault = faults, endpoint = (\<lambda>payload. answer),
      clock_check = now, clock_merge = now + 1, clock_report = now div 1000,
      datetime_ok = (\<lambda>ms. ms < 253402387200000)\<rparr>"

definition test_world :: "json \<Rightarrow> world" where
  "test_world doc = \<lparr>files = [cfg_path \<mapsto> Json doc], posts = [], opens = []\<rparr>"

text \<open>The document and the response of the end-to-end scenario of the specification.\<close>

definition doc_scenario :: json where
  "doc_scenario =
     JObj [(''claudeAiOauth'',
            JObj [(''refreshToken'', JStr ''R1''), (''expiresAt'', JInt 1000)])]"

definition resp_scenario :: json where
  "resp_scenario = JObj [(''access_token'', JStr ''A2''), (''expires_in'', JInt 3600)]"

definition doc_after_scenario :: "int \<Rightarrow> json" where
  "doc_after_scenario now =
     JObj [(''claudeAiOauth'',
            JObj [(''refreshToken'', JStr ''R1''), (''expiresAt'', JInt (now + 3600000)),
                  (''accessToken'', JStr ''A2''), (''scopes'', JList [])])]"

text \<open>A response with a two-hour lifetime, a scope string and no refresh token.\<close>

definition resp_7200 :: json where
  "resp_7200 =
     JObj [(''access_token'', JStr ''A2''), (''expires_in'', JInt 7200),
           (''scope'', JStr ''user:inference  user:profile'')]"

text \<open>A document with a second top-level entry and the record under \<^verbatim>\<open>oauthAccount\<close>.\<close>

definition doc_account :: json where
  "doc_account =
     JObj [(''userID'', JStr ''u1''),
           (''oauthAccount'',
            JObj [(''refreshToken'', JStr ''R9''), (''accessToken'', JStr ''A1''),
                  (''expiresAt'', JInt 5), (''subscriptionType'', JStr ''max'')])]"

definition resp_org :: json where
  "resp_org =
     JObj [(''access_token'', JStr ''A3''), (''refresh_token'', JStr ''R10''),
           (''organization'', JObj [(''uuid'', JStr ''o-1''), (''name'', JStr ''Org'')])]"

text \<open>
  A document whose first key holds a record without a refresh token while a
  later key holds the refresh token.
\<close>

definition doc_two_keys :: json where
  "doc_two_keys =
     JObj [(''claudeAiOauth'', JObj []),
           (''oauth'', JObj [(''refreshToken'', JStr ''R1'')])]"

text \<open>The scenario's document with an expiry far beyond the year 9999.\<close>

definition doc_far_expiry :: json where
  "doc_far_expiry =
     JObj [(''claudeAiOauth'',
            JObj [(''refreshToken'', JStr ''R1''),
                  (''expiresAt'', JInt 1000000000000000000)])]"

text \<open>The scenario's document with an empty refresh token and no expiry.\<close>

definition doc_empty_token :: json where
  "doc_empty_token = JObj [(''claudeAiOauth'', JObj [(''refreshToken'', JStr [])])]"

text \<open>Writing fails on the backup path only.\<close>

definition backup_fails :: "path \<Rightarrow> write_fault" where
  "backup_fails p = (if p = backup_path then DumpFails else WriteOk)"

text \<open>A document with none of the three OAuth keys.\<close>

definition doc_no_key :: json where
  "doc_no_key = JObj [(''userID'', JStr ''u1'')]"

lemmas example_defs =
  cfg_path_def backup_path_def test_env_def test_world_def doc_scenario_def resp_scenario_def
  doc_after_scenario_def resp_7200_def doc_account_def resp_org_def doc_two_keys_def
  doc_far_expiry_def doc_empty_token_def backup_fails_def doc_no_key_def

lemmas program_defs =
  update_config_def merge_config_def resolve_oauth_key_def oauth_keys_def new_expires_at_def
  update_oauth_record_def update_tokens_def new_scopes_def copy_info_def write_files_def
  write_json_def with_suffix_def name_suffix_def str_split_def is_space_def
  stored_field_def stored_top_def record_field_def updated_key_def

lemmas run_defs =
  run_def load_config_def find_claude_config_def search_paths_def get_oauth_config_def
  check_expiry_def is_token_expired_def refresh_token_def refresh_payload_def finish_def
  CLAUDE_TOKEN_URL_def CLAUDE_CLIENT_ID_def

section \<open>The Python operations when they succeed\<close>

lemma and_then_Inr: "(and_then r f = Inr y) = (\<exists>x. r = Inr x \<and> f x = Inr y)"
  by (cases r) (simp_all add: and_then_def)

lemma and_then_simps [simp]: "and_then (Inl e) f = Inl e" "and_then (Inr x) f = f x"
  by (simp_all add: and_then_def)

lemma py_setitem_Inr:
  "(py_setitem c k v = Inr c') = (\<exists>kvs. c = JObj kvs \<and> c' = JObj (AList.update k v kvs))"
  by (cases c) auto

lemma py_get_Inr:
  "(py_get c k d = Inr v) =
     (\<exists>kvs. c = JObj kvs \<and> v = (case map_of kvs k of None \<Rightarrow> d | Some x \<Rightarrow> x))"
  by (cases c) auto

lemma py_getitem_Inr:
  "(py_getitem c k = Inr v) = (\<exists>kvs. c = JObj kvs \<and> map_of kvs k = Some v)"
  by (cases c) (auto split: option.splits)

lemma field_update [simp]:
  "field (JObj (AList.update k v kvs)) f = (if f = k then Some v else field (JObj kvs) f)"
  by (simp add: update_conv')

lemma update_tokens_Inr:
  assumes "update_tokens ea c resp = Inr c'"
  shows "\<exists>kvs rkvs access sc.
           c = JObj kvs \<and> resp = JObj rkvs \<and> map_of rkvs ''access_token'' = Some access \<and>
           new_scopes c resp = Inr sc \<and>
           c' = JObj (AList.update ''scopes'' sc
                  (AList.update ''expiresAt'' (JInt ea)
                    (AList.update ''refreshToken''
                       (case map_of rkvs ''refresh_token'' of
                          None \<Rightarrow> (case map_of kvs ''refreshToken'' of None \<Rightarrow> JNull | Some x \<Rightarrow> x)
                        | Some x \<Rightarrow> x)
                      (AList.update ''accessToken'' access kvs))))"
  using assms unfolding update_tokens_def
  by (auto simp add: and_then_Inr py_setitem_Inr py_get_Inr py_getitem_Inr)

lemma copy_info_Inr:
  assumes "copy_info src k1 f1 k2 f2 c resp = Inr c'"
  shows "(field resp src = None \<and> c' = c) \<or>
         (\<exists>sub v1 v2 kvs. field resp src = Some sub \<and> field sub k1 = Some v1 \<and>
            field sub k2 = Some v2 \<and> c = JObj kvs \<and>
            c' = JObj (AList.update f2 v2 (AList.update f1 v1 kvs)))"
proof (cases resp)
  case (JObj rkvs)
  then show ?thesis
    using assms unfolding copy_info_def
    by (auto simp add: and_then_Inr py_setitem_Inr py_getitem_Inr split: if_splits)
qed (use assms in \<open>auto simp add: copy_info_def and_then_Inr py_getitem_Inr split: if_splits\<close>)


lemma find_oauth_key_obj:
  "find_oauth_key ks (JObj kvs) = Inr (List.find (\<lambda>k. map_of kvs k \<noteq> None) ks)"
  by (induction ks) auto

lemma find_oauth_key_Some:
  assumes "find_oauth_key ks (JObj kvs) = Inr (Some k)"
  shows "map_of kvs k \<noteq> None"
  using assms by (auto simp add: find_oauth_key_obj find_Some_iff)

lemma resolve_oauth_key_cases:
  assumes "resolve_oauth_key doc = Inr (k, cd)"
  shows "(find_oauth_key oauth_keys doc = Inr (Some k) \<and> cd = doc) \<or>
         (find_oauth_key oauth_keys doc = Inr None \<and> k = ''claudeAiOauth'' \<and>
          py_setitem doc ''claudeAiOauth'' (JObj []) = Inr cd)"
  using assms unfolding resolve_oauth_key_def
  by (auto simp add: and_then_Inr split: option.splits)

lemma resolve_oauth_key_Inr:
  assumes "resolve_oauth_key doc = Inr (k, cd)" and "py_getitem cd k = Inr r"
  shows "\<exists>kvs ckvs. doc = JObj kvs \<and> cd = JObj ckvs \<and> k = updated_key doc \<and>
           r = old_record doc \<and> (\<forall>v. AList.update k v ckvs = AList.update k v kvs)"
  using resolve_oauth_key_cases [OF assms(1)]
proof (elim disjE conjE)
  assume f: "find_oauth_key oauth_keys doc = Inr (Some k)" and c: "cd = doc"
  from assms(2) c obtain kvs where kvs: "doc = JObj kvs" "map_of kvs k = Some r"
    by (auto simp add: py_getitem_Inr)
  with f c show ?thesis
    by (simp add: updated_key_def old_record_def)
next
  assume f: "find_oauth_key oauth_keys doc = Inr None" and k: "k = ''claudeAiOauth''"
    and s: "py_setitem doc ''claudeAiOauth'' (JObj []) = Inr cd"
  from s obtain kvs where kvs: "doc = JObj kvs"
    "cd = JObj (AList.update ''claudeAiOauth'' (JObj []) kvs)"
    by (auto simp add: py_setitem_Inr)
  from f kvs have "map_of kvs ''claudeAiOauth'' = None"
    by (auto simp add: find_oauth_key_obj oauth_keys_def split: if_splits)
  with f k kvs assms(2) show ?thesis
    by (auto simp add: updated_key_def old_record_def py_getitem_Inr update_conv')
qed

lemma merge_config_Inr:
  assumes "merge_config now doc resp = Inr doc'"
  shows "\<exists>kvs ea r'. doc = JObj kvs \<and> new_expires_at now resp = Inr ea \<and>
           update_oauth_record ea (old_record doc) resp = Inr r' \<and>
           doc' = JObj (AList.update (updated_key doc) r' kvs)"
proof -
  from assms obtain k cd ea r r' where
    rk: "resolve_oauth_key doc = Inr (k, cd)" and
    ea: "new_expires_at now resp = Inr ea" and
    gi: "py_getitem cd k = Inr r" and
    up: "update_oauth_record ea r resp = Inr r'" and
    si: "py_setitem cd k r' = Inr doc'"
    unfolding merge_config_def by (auto simp add: and_then_Inr)
  from resolve_oauth_key_Inr [OF rk gi] obtain kvs ckvs where
    d: "doc = JObj kvs" "k = updated_key doc" "r = old_record doc" "cd = JObj ckvs"
    and u: "\<And>v. AList.update k v ckvs = AList.update k v kvs"
    by blast
  from si d u have "doc' = JObj (AList.update (updated_key doc) r' kvs)"
    by auto
  with d ea up show ?thesis by auto
qed


lemma copy_info_field:
  assumes "copy_info src k1 f1 k2 f2 c resp = Inr c'"
  shows "field c' f =
           (if field resp src = None then field c f
            else if f = f2 then record_field resp src k2
            else if f = f1 then record_field resp src k1
            else field c f)"
    and "field resp src \<noteq> None \<Longrightarrow>
           record_field resp src k1 \<noteq> None \<and> record_field resp src k2 \<noteq> None"
  using copy_info_Inr [OF assms] by (auto simp add: record_field_def update_conv')

lemma update_tokens_field:
  assumes "update_tokens ea c resp = Inr c'"
  shows "\<exists>sc. new_scopes c resp = Inr sc \<and> field resp ''access_token'' \<noteq> None \<and>
           (\<forall>f. field c' f =
             (if f = ''scopes'' then Some sc
              else if f = ''expiresAt'' then Some (JInt ea)
              else if f = ''refreshToken'' then
                Some (case field resp ''refresh_token'' of
                        None \<Rightarrow> (case field c ''refreshToken'' of None \<Rightarrow> JNull | Some x \<Rightarrow> x)
                      | Some x \<Rightarrow> x)
              else if f = ''accessToken'' then field resp ''access_token''
              else field c f))"
proof -
  from update_tokens_Inr [OF assms] obtain kvs rkvs access sc where
    c: "c = JObj kvs" and r: "resp = JObj rkvs" and
    a: "map_of rkvs ''access_token'' = Some access" and
    sc: "new_scopes c resp = Inr sc" and
    c': "c' = JObj (AList.update ''scopes'' sc
                  (AList.update ''expiresAt'' (JInt ea)
                    (AList.update ''refreshToken''
                       (case map_of rkvs ''refresh_token'' of
                          None \<Rightarrow> (case map_of kvs ''refreshToken'' of None \<Rightarrow> JNull | Some x \<Rightarrow> x)
                        | Some x \<Rightarrow> x)
                      (AList.update ''accessToken'' access kvs))))"
    by blast
  show ?thesis
    apply (rule exI [of _ sc])
    apply (intro conjI allI)
      apply (rule sc)
     apply (simp add: r a)
    apply (simp add: c' c r a update_conv' split: option.splits)
    done
qed

lemma update_oauth_record_parts:
  assumes "update_oauth_record ea c resp = Inr c'"
  shows "\<exists>c1 c2. update_tokens ea c resp = Inr c1 \<and>
           copy_info ''organization'' ''uuid'' ''organizationUuid''
             ''name'' ''organizationName'' c1 resp = Inr c2 \<and>
           copy_info ''account'' ''uuid'' ''accountUuid''
             ''email_address'' ''emailAddress'' c2 resp = Inr c'"
  using assms unfolding update_oauth_record_def by (auto simp add: and_then_Inr)

lemma update_oauth_record_info:
  assumes "update_oauth_record ea c resp = Inr c'"
  shows "field resp ''organization'' \<noteq> None \<Longrightarrow>
           record_field resp ''organization'' ''uuid'' \<noteq> None \<and>
           record_field resp ''organization'' ''name'' \<noteq> None"
    and "field resp ''account'' \<noteq> None \<Longrightarrow>
           record_field resp ''account'' ''uuid'' \<noteq> None \<and>
           record_field resp ''account'' ''email_address'' \<noteq> None"
  using update_oauth_record_parts [OF assms] copy_info_field(2) by blast+

lemma update_oauth_record_field:
  assumes "update_oauth_record ea c resp = Inr c'"
  shows "\<exists>sc. new_scopes c resp = Inr sc \<and> field c' ''scopes'' = Some sc"
    and "field c' ''expiresAt'' = Some (JInt ea)"
    and "field c' ''refreshToken'' =
           Some (case field resp ''refresh_token'' of
                   None \<Rightarrow> (case field c ''refreshToken'' of None \<Rightarrow> JNull | Some x \<Rightarrow> x)
                 | Some x \<Rightarrow> x)"
    and "field c' ''accessToken'' = field resp ''access_token''"
    and "field resp ''access_token'' \<noteq> None"
    and "\<And>org. field resp ''organization'' = Some org \<Longrightarrow>
           field c' ''organizationUuid'' = record_field resp ''organization'' ''uuid'' \<and>
           field c' ''organizationName'' = record_field resp ''organization'' ''name''"
    and "\<And>acc. field resp ''account'' = Some acc \<Longrightarrow>
           field c' ''accountUuid'' = record_field resp ''account'' ''uuid'' \<and>
           field c' ''emailAddress'' = record_field resp ''account'' ''email_address''"
    and "\<And>f. f \<notin> {''accessToken'', ''refreshToken'', ''expiresAt'', ''scopes''} \<Longrightarrow>
           field resp ''organization'' = None \<or>
             f \<notin> {''organizationUuid'', ''organizationName''} \<Longrightarrow>
           field resp ''account'' = None \<or> f \<notin> {''accountUuid'', ''emailAddress''} \<Longrightarrow>
           field c' f = field c f"
proof -
  from update_oauth_record_parts [OF assms] obtain c1 c2 where
    t: "update_tokens ea c resp = Inr c1" and
    o: "copy_info ''organization'' ''uuid'' ''organizationUuid''
          ''name'' ''organizationName'' c1 resp = Inr c2" and
    a: "copy_info ''account'' ''uuid'' ''accountUuid''
          ''email_address'' ''emailAddress'' c2 resp = Inr c'"
    by blast
  from update_tokens_field [OF t] obtain sc where
    sc: "new_scopes c resp = Inr sc" and at: "field resp ''access_token'' \<noteq> None" and
    f1: "\<And>f. field c1 f =
             (if f = ''scopes'' then Some sc
              else if f = ''expiresAt'' then Some (JInt ea)
              else if f = ''refreshToken'' then
                Some (case field resp ''refresh_token'' of
                        None \<Rightarrow> (case field c ''refreshToken'' of None \<Rightarrow> JNull | Some x \<Rightarrow> x)
                      | Some x \<Rightarrow> x)
              else if f = ''accessToken'' then field resp ''access_token''
              else field c f)"
    by blast
  note f2 = copy_info_field(1) [OF o]
  note f3 = copy_info_field(1) [OF a]
  have "field c' ''scopes'' = Some sc"
    by (simp add: f3 f2 f1)
  with sc show "\<exists>sc. new_scopes c resp = Inr sc \<and> field c' ''scopes'' = Some sc"
    by blast
  show "field c' ''expiresAt'' = Some (JInt ea)"
    by (simp add: f3 f2 f1)
  show "field c' ''refreshToken'' =
           Some (case field resp ''refresh_token'' of
                   None \<Rightarrow> (case field c ''refreshToken'' of None \<Rightarrow> JNull | Some x \<Rightarrow> x)
                 | Some x \<Rightarrow> x)"
    by (simp add: f3 f2 f1)
  show "field c' ''accessToken'' = field resp ''access_token''"
    by (simp add: f3 f2 f1)
  show "field resp ''access_token'' \<noteq> None"
    by (rule at)
  show "field c' ''organizationUuid'' = record_field resp ''organization'' ''uuid'' \<and>
        field c' ''organizationName'' = record_field resp ''organization'' ''name''"
    if "field resp ''organization'' = Some org" for org
    using that by (simp add: f3 f2)
  show "field c' ''accountUuid'' = record_field resp ''account'' ''uuid'' \<and>
        field c' ''emailAddress'' = record_field resp ''account'' ''email_address''"
    if "field resp ''account'' = Some acc" for acc
    using that by (simp add: f3)
  show "field c' f = field c f"
    if "f \<notin> {''accessToken'', ''refreshToken'', ''expiresAt'', ''scopes''}"
      and "field resp ''organization'' = None \<or>
             f \<notin> {''organizationUuid'', ''organizationName''}"
      and "field resp ''account'' = None \<or> f \<notin> {''accountUuid'', ''emailAddress''}"
    for f
  proof -
    from that(1) have n: "f \<noteq> ''accessToken''" "f \<noteq> ''refreshToken''"
      "f \<noteq> ''expiresAt''" "f \<noteq> ''scopes''"
      by simp_all
    have 1: "field c1 f = field c f"
      by (simp add: f1 n)
    from that(2) have 2: "field c2 f = field c1 f"
      by (cases "field resp ''organization'' = None") (simp_all add: f2)
    from that(3) have 3: "field c' f = field c2 f"
      by (cases "field resp ''account'' = None") (simp_all add: f3)
    from 1 2 3 show ?thesis by simp
  qed
qed

lemma old_record_field: "field (old_record doc) f = record_field doc (updated_key doc) f"
  by (simp add: old_record_def record_field_def split: option.splits)

lemma new_expires_at_Inr:
  assumes "new_expires_at now resp = Inr ea"
  shows "(field resp ''expires_in'' = None \<and> ea = now + 3600 * 1000) \<or>
         (\<exists>n. field resp ''expires_in'' = Some (JInt n) \<and> ea = now + n * 1000) \<or>
         (\<exists>b. field resp ''expires_in'' = Some (JBool b) \<and>
              ea = now + (if b then 1 else 0) * 1000)"
proof -
  from assms obtain rkvs v n where r: "resp = JObj rkvs" and
    v: "v = (case map_of rkvs ''expires_in'' of None \<Rightarrow> JInt 3600 | Some x \<Rightarrow> x)" and
    n: "py_int v = Inr n" and ea: "ea = now + n * 1000"
    unfolding new_expires_at_def by (auto simp add: and_then_Inr py_get_Inr)
  show ?thesis
  proof (cases "map_of rkvs ''expires_in''")
    case None
    with r v n ea show ?thesis by simp
  next
    case (Some x)
    with v n have "py_int x = Inr n" by simp
    with Some r ea show ?thesis by (cases x) auto
  qed
qed

lemma new_scopes_Inr:
  assumes "new_scopes c resp = Inr sc"
  shows "(\<exists>s. field resp ''scope'' = Some (JStr s) \<and> s \<noteq> [] \<and>
              sc = JList (map JStr (str_split s))) \<or>
         ((field resp ''scope'' = None \<or> (\<exists>v. field resp ''scope'' = Some v \<and> \<not> truthy v)) \<and>
          sc = (case field c ''scopes'' of None \<Rightarrow> JList [] | Some v \<Rightarrow> v))"
proof -
  from assms obtain rkvs where r: "resp = JObj rkvs"
    unfolding new_scopes_def by (auto simp add: and_then_Inr py_get_Inr)
  show ?thesis
  proof (cases "map_of rkvs ''scope''")
    case None
    with assms r show ?thesis
      unfolding new_scopes_def by (auto simp add: py_get_Inr)
  next
    case (Some v)
    show ?thesis
    proof (cases "truthy v")
      case True
      with Some assms r have "py_split v = Inr sc"
        unfolding new_scopes_def by simp
      with True Some r show ?thesis by (cases v) auto
    next
      case False
      with Some assms r show ?thesis
        unfolding new_scopes_def by (auto simp add: py_get_Inr)
    qed
  qed
qed

lemma write_json_cases:
  "write_json e p doc w =
     (case write_fault e p of
        OpenFails \<Rightarrow> (False, w\<lparr>opens := opens w @ [(p, OpenFails)]\<rparr>)
      | DumpFails \<Rightarrow> (False, w\<lparr>opens := opens w @ [(p, DumpFails)], files := (files w)(p \<mapsto> Garbage)\<rparr>)
      | WriteOk \<Rightarrow> (True, w\<lparr>opens := opens w @ [(p, WriteOk)], files := (files w)(p \<mapsto> Json doc)\<rparr>))"
  by (simp add: write_json_def Let_def split: write_fault.splits)

lemma write_files_True:
  assumes "fst (write_files e cf doc w)"
  shows "\<exists>b. with_suffix cf ''.json.backup'' = Inr b \<and>
           write_fault e b = WriteOk \<and> write_fault e cf = WriteOk \<and>
           snd (write_files e cf doc w) =
             w\<lparr>opens := opens w @ [(b, WriteOk), (cf, WriteOk)],
               files := (files w)(b \<mapsto> Json doc, cf \<mapsto> Json doc)\<rparr>"
  using assms unfolding write_files_def
  by (auto simp add: write_json_cases split: sum.splits write_fault.splits)

lemma update_config_True:
  assumes "fst (update_config e cf doc resp w)"
  shows "\<exists>doc' b. merge_config (clock_merge e) doc resp = Inr doc' \<and>
           with_suffix cf ''.json.backup'' = Inr b \<and>
           write_fault e b = WriteOk \<and> write_fault e cf = WriteOk \<and>
           snd (update_config e cf doc resp w) =
             w\<lparr>opens := opens w @ [(b, WriteOk), (cf, WriteOk)],
               files := (files w)(b \<mapsto> Json doc', cf \<mapsto> Json doc')\<rparr>"
proof (cases "merge_config (clock_merge e) doc resp")
  case (Inl err)
  with assms show ?thesis by (simp add: update_config_def)
next
  case (Inr doc')
  with assms have "fst (write_files e cf doc' w)"
    by (simp add: update_config_def)
  from write_files_True [OF this] Inr show ?thesis
    by (simp add: update_config_def)
qed

lemma update_config_persisted:
  assumes "fst (update_config e cf doc resp w)"
  shows "\<exists>ea r'. new_expires_at (clock_merge e) resp = Inr ea \<and>
           update_oauth_record ea (old_record doc) resp = Inr r' \<and>
           (\<forall>f. stored_field (snd (update_config e cf doc resp w)) cf (updated_key doc) f =
                 field r' f) \<and>
           (\<forall>k. k \<noteq> updated_key doc \<longrightarrow>
                 stored_top (snd (update_config e cf doc resp w)) cf k = field doc k)"
proof -
  from update_config_True [OF assms] obtain doc' b where
    m: "merge_config (clock_merge e) doc resp = Inr doc'" and
    s: "snd (update_config e cf doc resp w) =
             w\<lparr>opens := opens w @ [(b, WriteOk), (cf, WriteOk)],
               files := (files w)(b \<mapsto> Json doc', cf \<mapsto> Json doc')\<rparr>"
    by blast
  from merge_config_Inr [OF m] obtain kvs ea r' where
    d: "doc = JObj kvs" and ea: "new_expires_at (clock_merge e) resp = Inr ea" and
    u: "update_oauth_record ea (old_record doc) resp = Inr r'" and
    d': "doc' = JObj (AList.update (updated_key doc) r' kvs)"
    by blast
  have "\<forall>f. stored_field (snd (update_config e cf doc resp w)) cf (updated_key doc) f =
                 field r' f"
    unfolding s by (simp add: stored_field_def record_field_def d' update_conv')
  moreover have "\<forall>k. k \<noteq> updated_key doc \<longrightarrow>
                 stored_top (snd (update_config e cf doc resp w)) cf k = field doc k"
    unfolding s by (simp add: stored_top_def d' d update_conv')
  ultimately show ?thesis using ea u by blast
qed

lemma persisted_record:
  assumes "fst (update_config e cf doc resp w)"
  shows "\<exists>ea sc. new_expires_at (clock_merge e) resp = Inr ea \<and>
           new_scopes (old_record doc) resp = Inr sc \<and>
           stored_field (snd (update_config e cf doc resp w)) cf (updated_key doc) ''expiresAt'' =
             Some (JInt ea) \<and>
           stored_field (snd (update_config e cf doc resp w)) cf (updated_key doc) ''scopes'' =
             Some sc"
    and "stored_field (snd (update_config e cf doc resp w)) cf (updated_key doc) ''accessToken'' =
           field resp ''access_token''"
    and "field resp ''access_token'' \<noteq> None"
    and "stored_field (snd (update_config e cf doc resp w)) cf (updated_key doc) ''refreshToken'' =
           Some (case field resp ''refresh_token'' of
                   None \<Rightarrow> (case record_field doc (updated_key doc) ''refreshToken'' of
                              None \<Rightarrow> JNull | Some x \<Rightarrow> x)
                 | Some x \<Rightarrow> x)"
    and "\<And>org. field resp ''organization'' = Some org \<Longrightarrow>
           stored_field (snd (update_config e cf doc resp w)) cf (updated_key doc)
             ''organizationUuid'' = record_field resp ''organization'' ''uuid'' \<and>
           stored_field (snd (update_config e cf doc resp w)) cf (updated_key doc)
             ''organizationName'' = record_field resp ''organization'' ''name'' \<and>
           record_field resp ''organization'' ''uuid'' \<noteq> None \<and>
           record_field resp ''organization'' ''name'' \<noteq> None"
    and "\<And>acc. field resp ''account'' = Some acc \<Longrightarrow>
           stored_field (snd (update_config e cf doc resp w)) cf (updated_key doc)
             ''accountUuid'' = record_field resp ''account'' ''uuid'' \<and>
           stored_field (snd (update_config e cf doc resp w)) cf (updated_key doc)
             ''emailAddress'' = record_field resp ''account'' ''email_address'' \<and>
           record_field resp ''account'' ''uuid'' \<noteq> None \<and>
           record_field resp ''account'' ''email_address'' \<noteq> None"
    and "\<And>f. f \<notin> {''accessToken'', ''refreshToken'', ''expiresAt'', ''scopes''} \<Longrightarrow>
           field resp ''organization'' = None \<or>
             f \<notin> {''organizationUuid'', ''organizationName''} \<Longrightarrow>
           field resp ''account'' = None \<or> f \<notin> {''accountUuid'', ''emailAddress''} \<Longrightarrow>
           stored_field (snd (update_config e cf doc resp w)) cf (updated_key doc) f =
             record_field doc (updated_key doc) f"
    and "\<And>k. k \<noteq> updated_key doc \<Longrightarrow>
           stored_top (snd (update_config e cf doc resp w)) cf k = field doc k"
proof -
  from update_config_persisted [OF assms] obtain ea r' where
    ea: "new_expires_at (clock_merge e) resp = Inr ea" and
    u: "update_oauth_record ea (old_record doc) resp = Inr r'" and
    sf: "\<And>f. stored_field (snd (update_config e cf doc resp w)) cf (updated_key doc) f =
                 field r' f" and
    st: "\<And>k. k \<noteq> updated_key doc \<Longrightarrow>
                 stored_top (snd (update_config e cf doc resp w)) cf k = field doc k"
    by blast
  note r = update_oauth_record_field [OF u]
  note i = update_oauth_record_info [OF u]
  from r(1) ea r(2) show "\<exists>ea sc. new_expires_at (clock_merge e) resp = Inr ea \<and>
           new_scopes (old_record doc) resp = Inr sc \<and>
           stored_field (snd (update_config e cf doc resp w)) cf (updated_key doc) ''expiresAt'' =
             Some (JInt ea) \<and>
           stored_field (snd (update_config e cf doc resp w)) cf (updated_key doc) ''scopes'' =
             Some sc"
    unfolding sf by blast
  show "stored_field (snd (update_config e cf doc resp w)) cf (updated_key doc) ''accessToken'' =
           field resp ''access_token''"
    unfolding sf by (rule r(4))
  show "field resp ''access_token'' \<noteq> None"
    by (rule r(5))
  show "stored_field (snd (update_config e cf doc resp w)) cf (updated_key doc) ''refreshToken'' =
           Some (case field resp ''refresh_token'' of
                   None \<Rightarrow> (case record_field doc (updated_key doc) ''refreshToken'' of
                              None \<Rightarrow> JNull | Some x \<Rightarrow> x)
                 | Some x \<Rightarrow> x)"
    unfolding sf r(3) old_record_field by (rule refl)
  show "stored_field (snd (update_config e cf doc resp w)) cf (updated_key doc)
             ''organizationUuid'' = record_field resp ''organization'' ''uuid'' \<and>
           stored_field (snd (update_config e cf doc resp w)) cf (updated_key doc)
             ''organizationName'' = record_field resp ''organization'' ''name'' \<and>
           record_field resp ''organization'' ''uuid'' \<noteq> None \<and>
           record_field resp ''organization'' ''name'' \<noteq> None"
    if "field resp ''organization'' = Some org" for org
    unfolding sf using r(6) [OF that] i(1) that by simp
  show "stored_field (snd (update_config e cf doc resp w)) cf (updated_key doc)
             ''accountUuid'' = record_field resp ''account'' ''uuid'' \<and>
           stored_field (snd (update_config e cf doc resp w)) cf (updated_key doc)
             ''emailAddress'' = record_field resp ''account'' ''email_address'' \<and>
           record_field resp ''account'' ''uuid'' \<noteq> None \<and>
           record_field resp ''account'' ''email_address'' \<noteq> None"
    if "field resp ''account'' = Some acc" for acc
    unfolding sf using r(7) [OF that] i(2) that by simp
  show "stored_field (snd (update_config e cf doc resp w)) cf (updated_key doc) f =
             record_field doc (updated_key doc) f"
    if "f \<notin> {''accessToken'', ''refreshToken'', ''expiresAt'', ''scopes''}"
      and "field resp ''organization'' = None \<or>
             f \<notin> {''organizationUuid'', ''organizationName''}"
      and "field resp ''account'' = None \<or> f \<notin> {''accountUuid'', ''emailAddress''}"
    for f
    unfolding sf old_record_field [symmetric] using that by (rule r(8))
  show "stored_top (snd (update_config e cf doc resp w)) cf k = field doc k"
    if "k \<noteq> updated_key doc" for k
    using that by (rule st)
qed

section \<open>The claims about the merge\<close>

text \<open>
  C7. After a successful \<open>update_config\<close>, the \<^verbatim>\<open>expiresAt\<close> persisted in the
  primary file is the clock reading of the merge (milliseconds) plus 1000 times
  the response's \<^verbatim>\<open>expires_in\<close>, which counts as 3600 when the response has
  no such field.
\<close>

theorem C7_expires_at:
  assumes "fst (update_config e cf doc resp w)"
  shows "(field resp ''expires_in'' = None \<and>
          stored_field (snd (update_config e cf doc resp w)) cf (updated_key doc) ''expiresAt'' =
            Some (JInt (clock_merge e + 3600 * 1000))) \<or>
         (\<exists>n. field resp ''expires_in'' = Some (JInt n) \<and>
          stored_field (snd (update_config e cf doc resp w)) cf (updated_key doc) ''expiresAt'' =
            Some (JInt (clock_merge e + n * 1000))) \<or>
         (\<exists>b. field resp ''expires_in'' = Some (JBool b) \<and>
          stored_field (snd (update_config e cf doc resp w)) cf (updated_key doc) ''expiresAt'' =
            Some (JInt (clock_merge e + (if b then 1 else 0) * 1000)))"
proof -
  from persisted_record(1) [OF assms] obtain ea where
    ea: "new_expires_at (clock_merge e) resp = Inr ea" and
    st: "stored_field (snd (update_config e cf doc resp w)) cf (updated_key doc) ''expiresAt'' =
           Some (JInt ea)"
    by blast
  from new_expires_at_Inr [OF ea] show ?thesis
    unfolding st by blast
qed

theorem C7_expires_at_witness:
  "fst (update_config (test_env TransportError 5000 (\<lambda>p. WriteOk)) cfg_path
          doc_scenario resp_7200 (test_world doc_scenario)) \<and>
   stored_field (snd (update_config (test_env TransportError 5000 (\<lambda>p. WriteOk)) cfg_path
          doc_scenario resp_7200 (test_world doc_scenario))) cfg_path ''claudeAiOauth''
     ''expiresAt'' = Some (JInt (5001 + 7200000))"
proof -
  have h: "fst (update_config (test_env TransportError 5000 (\<lambda>p. WriteOk)) cfg_path
                  doc_scenario resp_7200 (test_world doc_scenario))"
    by (simp add: program_defs example_defs)
  have k: "updated_key doc_scenario = ''claudeAiOauth''"
    by (simp add: updated_key_def oauth_keys_def doc_scenario_def)
  have r: "field resp_7200 ''expires_in'' = Some (JInt 7200)"
    by (simp add: resp_7200_def)
  have c: "clock_merge (test_env TransportError 5000 (\<lambda>p. WriteOk)) = 5001"
    by (simp add: test_env_def)
  from C7_expires_at [OF h] h show ?thesis
    unfolding k r c by simp
qed




text \<open>
  C4, as stated, fails: a record without \<^verbatim>\<open>scopes\<close> and a response without
  \<^verbatim>\<open>scope\<close> leave \<^verbatim>\<open>scopes\<close> set to the empty list, not absent.
\<close>

theorem C4_scopes_counterexample:
  "fst (update_config (test_env TransportError 5000 (\<lambda>p. WriteOk)) cfg_path
          doc_scenario resp_scenario (test_world doc_scenario)) \<and>
   field resp_scenario ''scope'' = None \<and>
   record_field doc_scenario ''claudeAiOauth'' ''scopes'' = None \<and>
   stored_field (snd (update_config (test_env TransportError 5000 (\<lambda>p. WriteOk)) cfg_path
          doc_scenario resp_scenario (test_world doc_scenario))) cfg_path ''claudeAiOauth''
     ''scopes'' = Some (JList [])"
  by (simp add: program_defs example_defs)

text \<open>
  C4, amended. After a successful \<open>update_config\<close>, the persisted \<^verbatim>\<open>scopes\<close>
  is the response's \<^verbatim>\<open>scope\<close> split on whitespace when that is a non-empty
  string; otherwise (no \<^verbatim>\<open>scope\<close>, or an empty or null one) it is the value the
  record held, and the empty list when the record held none.
\<close>

theorem C4_scopes:
  assumes "fst (update_config e cf doc resp w)"
  shows "(\<exists>s. field resp ''scope'' = Some (JStr s) \<and> s \<noteq> [] \<and>
            stored_field (snd (update_config e cf doc resp w)) cf (updated_key doc) ''scopes'' =
              Some (JList (map JStr (str_split s)))) \<or>
         ((field resp ''scope'' = None \<or>
           (\<exists>v. field resp ''scope'' = Some v \<and> \<not> truthy v)) \<and>
          stored_field (snd (update_config e cf doc resp w)) cf (updated_key doc) ''scopes'' =
            Some (case record_field doc (updated_key doc) ''scopes'' of
                    None \<Rightarrow> JList [] | Some v \<Rightarrow> v))"
proof -
  from persisted_record(1) [OF assms] obtain sc where
    sc: "new_scopes (old_record doc) resp = Inr sc" and
    st: "stored_field (snd (update_config e cf doc resp w)) cf (updated_key doc) ''scopes'' =
           Some sc"
    by blast
  from new_scopes_Inr [OF sc] show ?thesis
    unfolding st old_record_field by blast
qed

theorem C4_scopes_witness:
  "fst (update_config (test_env TransportError 5000 (\<lambda>p. WriteOk)) cfg_path
          doc_account resp_7200 (test_world doc_account)) \<and>
   stored_field (snd (update_config (test_env TransportError 5000 (\<lambda>p. WriteOk)) cfg_path
          doc_account resp_7200 (test_world doc_account))) cfg_path ''oauthAccount''
     ''scopes'' = Some (JList [JStr ''user:inference'', JStr ''user:profile''])"
proof -
  have h: "fst (update_config (test_env TransportError 5000 (\<lambda>p. WriteOk)) cfg_path
                  doc_account resp_7200 (test_world doc_account))"
    by (simp add: program_defs example_defs)
  have k: "updated_key doc_account = ''oauthAccount''"
    by (simp add: updated_key_def oauth_keys_def doc_account_def)
  have r: "field resp_7200 ''scope'' = Some (JStr ''user:inference  user:profile'')"
    by (simp add: resp_7200_def)
  have s: "str_split ''user:inference  user:profile'' = [''user:inference'', ''user:profile'']"
    by (simp add: str_split_def is_space_def)
  from C4_scopes [OF h] h show ?thesis
    unfolding k r by (simp add: s)
qed

text \<open>
  C9, as stated, fails on a touched field: with no \<^verbatim>\<open>scope\<close> in the response
  the rule is to retain the existing \<^verbatim>\<open>scopes\<close> unchanged, and a record that
  had no such field is persisted with \<^verbatim>\<open>scopes\<close> set to the empty list.
\<close>

theorem C9_frame_counterexample:
  "fst (update_config (test_env TransportError 5000 (\<lambda>p. WriteOk)) cfg_path
          doc_account resp_org (test_world doc_account)) \<and>
   field resp_org ''scope'' = None \<and>
   record_field doc_account ''oauthAccount'' ''scopes'' = None \<and>
   stored_field (snd (update_config (test_env TransportError 5000 (\<lambda>p. WriteOk)) cfg_path
          doc_account resp_org (test_world doc_account))) cfg_path ''oauthAccount''
     ''scopes'' = Some (JList [])"
  by (simp add: program_defs example_defs)

text \<open>
  C9, amended. After a successful \<open>update_config\<close> the persisted document
  agrees with the original on every top-level key other than the updated one
  and on every field of the updated record that the merge does not set; the
  fields it sets are: \<^verbatim>\<open>accessToken\<close>, the response's \<^verbatim>\<open>access_token\<close>;
  \<^verbatim>\<open>refreshToken\<close>, the response's \<^verbatim>\<open>refresh_token\<close> when it has the field,
  else the old value (null when there was none); \<^verbatim>\<open>expiresAt\<close>, the clock of
  the merge plus 1000 times \<^verbatim>\<open>expires_in\<close> (3600 when absent); \<^verbatim>\<open>scopes\<close>,
  the split of a non-empty \<^verbatim>\<open>scope\<close> string, else the old value (the empty list
  when there was none); and the organization and account fields, copied from
  the response when it carries those sub-objects.
\<close>

theorem C9_frame:
  assumes "fst (update_config e cf doc resp w)"
  shows "(\<forall>k. k \<noteq> updated_key doc \<longrightarrow>
            stored_top (snd (update_config e cf doc resp w)) cf k = field doc k) \<and>
         (\<forall>f. f \<notin> {''accessToken'', ''refreshToken'', ''expiresAt'', ''scopes''} \<longrightarrow>
            (field resp ''organization'' = None \<or>
               f \<notin> {''organizationUuid'', ''organizationName''}) \<longrightarrow>
            (field resp ''account'' = None \<or> f \<notin> {''accountUuid'', ''emailAddress''}) \<longrightarrow>
            stored_field (snd (update_config e cf doc resp w)) cf (updated_key doc) f =
              record_field doc (updated_key doc) f) \<and>
         (\<exists>a. field resp ''access_token'' = Some a \<and>
            stored_field (snd (update_config e cf doc resp w)) cf (updated_key doc)
              ''accessToken'' = Some a) \<and>
         stored_field (snd (update_config e cf doc resp w)) cf (updated_key doc)
           ''refreshToken'' =
           Some (case field resp ''refresh_token'' of
                   None \<Rightarrow> (case record_field doc (updated_key doc) ''refreshToken'' of
                              None \<Rightarrow> JNull | Some x \<Rightarrow> x)
                 | Some x \<Rightarrow> x) \<and>
         ((field resp ''expires_in'' = None \<and>
           stored_field (snd (update_config e cf doc resp w)) cf (updated_key doc)
             ''expiresAt'' = Some (JInt (clock_merge e + 3600 * 1000))) \<or>
          (\<exists>n. field resp ''expires_in'' = Some (JInt n) \<and>
           stored_field (snd (update_config e cf doc resp w)) cf (updated_key doc)
             ''expiresAt'' = Some (JInt (clock_merge e + n * 1000))) \<or>
          (\<exists>b. field resp ''expires_in'' = Some (JBool b) \<and>
           stored_field (snd (update_config e cf doc resp w)) cf (updated_key doc)
             ''expiresAt'' = Some (JInt (clock_merge e + (if b then 1 else 0) * 1000)))) \<and>
         ((\<exists>s. field resp ''scope'' = Some (JStr s) \<and> s \<noteq> [] \<and>
            stored_field (snd (update_config e cf doc resp w)) cf (updated_key doc)
              ''scopes'' = Some (JList (map JStr (str_split s)))) \<or>
          ((field resp ''scope'' = None \<or>
            (\<exists>v. field resp ''scope'' = Some v \<and> \<not> truthy v)) \<and>
           stored_field (snd (update_config e cf doc resp w)) cf (updated_key doc)
             ''scopes'' =
             Some (case record_field doc (updated_key doc) ''scopes'' of
                     None \<Rightarrow> JList [] | Some v \<Rightarrow> v))) \<and>
         (\<forall>org. field resp ''organization'' = Some org \<longrightarrow>
            (\<exists>u n. record_field resp ''organization'' ''uuid'' = Some u \<and>
               record_field resp ''organization'' ''name'' = Some n \<and>
               stored_field (snd (update_config e cf doc resp w)) cf (updated_key doc)
                 ''organizationUuid'' = Some u \<and>
               stored_field (snd (update_config e cf doc resp w)) cf (updated_key doc)
                 ''organizationName'' = Some n)) \<and>
         (\<forall>acc. field resp ''account'' = Some acc \<longrightarrow>
            (\<exists>u m. record_field resp ''account'' ''uuid'' = Some u \<and>
               record_field resp ''account'' ''email_address'' = Some m \<and>
               stored_field (snd (update_config e cf doc resp w)) cf (updated_key doc)
                 ''accountUuid'' = Some u \<and>
               stored_field (snd (update_config e cf doc resp w)) cf (updated_key doc)
                 ''emailAddress'' = Some m))"
proof (intro conjI)
  note p = persisted_record [OF assms]
  show "\<forall>k. k \<noteq> updated_key doc \<longrightarrow>
            stored_top (snd (update_config e cf doc resp w)) cf k = field doc k"
    using p(8) by blast
  show "\<forall>f. f \<notin> {''accessToken'', ''refreshToken'', ''expiresAt'', ''scopes''} \<longrightarrow>
            (field resp ''organization'' = None \<or>
               f \<notin> {''organizationUuid'', ''organizationName''}) \<longrightarrow>
            (field resp ''account'' = None \<or> f \<notin> {''accountUuid'', ''emailAddress''}) \<longrightarrow>
            stored_field (snd (update_config e cf doc resp w)) cf (updated_key doc) f =
              record_field doc (updated_key doc) f"
    using p(7) by blast
  show "\<exists>a. field resp ''access_token'' = Some a \<and>
            stored_field (snd (update_config e cf doc resp w)) cf (updated_key doc)
              ''accessToken'' = Some a"
    using p(2) p(3) by auto
  show "stored_field (snd (update_config e cf doc resp w)) cf (updated_key doc)
           ''refreshToken'' =
           Some (case field resp ''refresh_token'' of
                   None \<Rightarrow> (case record_field doc (updated_key doc) ''refreshToken'' of
                              None \<Rightarrow> JNull | Some x \<Rightarrow> x)
                 | Some x \<Rightarrow> x)"
    by (rule p(4))
  from p(1) obtain ea sc where
    ea: "new_expires_at (clock_merge e) resp = Inr ea" and
    sc: "new_scopes (old_record doc) resp = Inr sc" and
    se: "stored_field (snd (update_config e cf doc resp w)) cf (updated_key doc) ''expiresAt'' =
           Some (JInt ea)" and
    ss: "stored_field (snd (update_config e cf doc resp w)) cf (updated_key doc) ''scopes'' =
           Some sc"
    by blast
  from new_expires_at_Inr [OF ea]
  show "(field resp ''expires_in'' = None \<and>
           stored_field (snd (update_config e cf doc resp w)) cf (updated_key doc)
             ''expiresAt'' = Some (JInt (clock_merge e + 3600 * 1000))) \<or>
          (\<exists>n. field resp ''expires_in'' = Some (JInt n) \<and>
           stored_field (snd (update_config e cf doc resp w)) cf (updated_key doc)
             ''expiresAt'' = Some (JInt (clock_merge e + n * 1000))) \<or>
          (\<exists>b. field resp ''expires_in'' = Some (JBool b) \<and>
           stored_field (snd (update_config e cf doc resp w)) cf (updated_key doc)
             ''expiresAt'' = Some (JInt (clock_merge e + (if b then 1 else 0) * 1000)))"
    unfolding se by blast
  from new_scopes_Inr [OF sc]
  show "(\<exists>s. field resp ''scope'' = Some (JStr s) \<and> s \<noteq> [] \<and>
            stored_field (snd (update_config e cf doc resp w)) cf (updated_key doc)
              ''scopes'' = Some (JList (map JStr (str_split s)))) \<or>
          ((field resp ''scope'' = None \<or>
            (\<exists>v. field resp ''scope'' = Some v \<and> \<not> truthy v)) \<and>
           stored_field (snd (update_config e cf doc resp w)) cf (updated_key doc)
             ''scopes'' =
             Some (case record_field doc (updated_key doc) ''scopes'' of
                     None \<Rightarrow> JList [] | Some v \<Rightarrow> v))"
    unfolding ss old_record_field by blast
  show "\<forall>org. field resp ''organization'' = Some org \<longrightarrow>
            (\<exists>u n. record_field resp ''organization'' ''uuid'' = Some u \<and>
               record_field resp ''organization'' ''name'' = Some n \<and>
               stored_field (snd (update_config e cf doc resp w)) cf (updated_key doc)
                 ''organizationUuid'' = Some u \<and>
               stored_field (snd (update_config e cf doc resp w)) cf (updated_key doc)
                 ''organizationName'' = Some n)"
    using p(5) by fastforce
  show "\<forall>acc. field resp ''account'' = Some acc \<longrightarrow>
            (\<exists>u m. record_field resp ''account'' ''uuid'' = Some u \<and>
               record_field resp ''account'' ''email_address'' = Some m \<and>
               stored_field (snd (update_config e cf doc resp w)) cf (updated_key doc)
                 ''accountUuid'' = Some u \<and>
               stored_field (snd (update_config e cf doc resp w)) cf (updated_key doc)
                 ''emailAddress'' = Some m)"
    using p(6) by fastforce
qed

theorem C9_frame_witness:
  "fst (update_config (test_env TransportError 5000 (\<lambda>p. WriteOk)) cfg_path
          doc_account resp_org (test_world doc_account)) \<and>
   stored_top (snd (update_config (test_env TransportError 5000 (\<lambda>p. WriteOk)) cfg_path
          doc_account resp_org (test_world doc_account))) cfg_path ''userID'' =
     Some (JStr ''u1'') \<and>
   stored_field (snd (update_config (test_env TransportError 5000 (\<lambda>p. WriteOk)) cfg_path
          doc_account resp_org (test_world doc_account))) cfg_path ''oauthAccount''
     ''subscriptionType'' = Some (JStr ''max'') \<and>
   stored_field (snd (update_config (test_env TransportError 5000 (\<lambda>p. WriteOk)) cfg_path
          doc_account resp_org (test_world doc_account))) cfg_path ''oauthAccount''
     ''refreshToken'' = Some (JStr ''R10'') \<and>
   stored_field (snd (update_config (test_env TransportError 5000 (\<lambda>p. WriteOk)) cfg_path
          doc_account resp_org (test_world doc_account))) cfg_path ''oauthAccount''
     ''organizationName'' = Some (JStr ''Org'')"
proof -
  have h: "fst (update_config (test_env TransportError 5000 (\<lambda>p. WriteOk)) cfg_path
                  doc_account resp_org (test_world doc_account))"
    by (simp add: program_defs example_defs)
  have k: "updated_key doc_account = ''oauthAccount''"
    by (simp add: updated_key_def oauth_keys_def doc_account_def)
  have d: "field doc_account ''userID'' = Some (JStr ''u1'')"
    "record_field doc_account ''oauthAccount'' ''subscriptionType'' = Some (JStr ''max'')"
    by (simp_all add: record_field_def doc_account_def)
  have r: "field resp_org ''refresh_token'' = Some (JStr ''R10'')"
    "field resp_org ''account'' = None"
    "field resp_org ''organization'' = Some (JObj [(''uuid'', JStr ''o-1''), (''name'', JStr ''Org'')])"
    "record_field resp_org ''organization'' ''name'' = Some (JStr ''Org'')"
    by (simp_all add: record_field_def resp_org_def)
  note c = C9_frame [OF h, unfolded k]
  from c have 1: "stored_top (snd (update_config (test_env TransportError 5000 (\<lambda>p. WriteOk)) cfg_path
          doc_account resp_org (test_world doc_account))) cfg_path ''userID'' = Some (JStr ''u1'')"
    using d(1) by simp
  from c have 2: "stored_field (snd (update_config (test_env TransportError 5000 (\<lambda>p. WriteOk)) cfg_path
          doc_account resp_org (test_world doc_account))) cfg_path ''oauthAccount''
     ''subscriptionType'' = Some (JStr ''max'')"
    using d(2) by simp
  from c have 3: "stored_field (snd (update_config (test_env TransportError 5000 (\<lambda>p. WriteOk)) cfg_path
          doc_account resp_org (test_world doc_account))) cfg_path ''oauthAccount''
     ''refreshToken'' = Some (JStr ''R10'')"
    using r(1) by simp
  from c have 4: "stored_field (snd (update_config (test_env TransportError 5000 (\<lambda>p. WriteOk)) cfg_path
          doc_account resp_org (test_world doc_account))) cfg_path ''oauthAccount''
     ''organizationName'' = Some (JStr ''Org'')"
    using r(3) r(4) by auto
  from h 1 2 3 4 show ?thesis by blast
qed

section \<open>The shape of a run\<close>

lemma find_claude_config_in:
  assumes "find_claude_config e w = Some cf"
  shows "cf \<in> set (search_paths e)" and "files w cf \<noteq> None"
  using assms unfolding find_claude_config_def by (auto simp add: find_Some_iff)

lemma backup_of_found:
  assumes "cf \<in> set (search_paths e)"
  shows "with_suffix cf ''.json.backup'' = Inr (butlast cf @ [last cf @ ''.backup''])"
    and "butlast cf @ [last cf @ ''.backup''] \<noteq> cf"
proof -
  from assms consider
    "cf = base_dir e @ [''.claude'', ''.credentials.json'']" |
    "cf = base_dir e @ [''.claude.json'']" |
    "cf = home_dir e @ [''.claude'', ''.credentials.json'']" |
    "cf = home_dir e @ [''.claude.json'']"
    by (auto simp add: search_paths_def)
  then have "with_suffix cf ''.json.backup'' = Inr (butlast cf @ [last cf @ ''.backup'']) \<and>
    butlast cf @ [last cf @ ''.backup''] \<noteq> cf"
    by cases (simp_all add: with_suffix_def name_suffix_def butlast_append)
  then show "with_suffix cf ''.json.backup'' = Inr (butlast cf @ [last cf @ ''.backup''])"
    and "butlast cf @ [last cf @ ''.backup''] \<noteq> cf"
    by simp_all
qed

lemma load_config_Some:
  assumes "load_config e w = Some (cf, doc)"
  shows "find_claude_config e w = Some cf" and "files w cf = Some (Json doc)"
  using assms unfolding load_config_def
  by (auto split: option.splits if_splits content.splits)

lemma run_cases:
  "(\<exists>out. run e force w = (out, w)) \<or>
   (\<exists>rt. run e force w =
      (Returned False, w\<lparr>posts := posts w @ [(CLAUDE_TOKEN_URL, refresh_payload rt)]\<rparr>)) \<or>
   (\<exists>cf doc rt resp. load_config e w = Some (cf, doc) \<and>
      endpoint e (refresh_payload rt) = HttpResponse 200 (Some resp) \<and>
      run e force w =
        finish e cf doc resp (w\<lparr>posts := posts w @ [(CLAUDE_TOKEN_URL, refresh_payload rt)]\<rparr>))"
  unfolding run_def refresh_token_def Let_def
  by (auto split: option.splits sum.splits prod.splits http_result.splits)

lemma update_config_cases:
  assumes "with_suffix cf ''.json.backup'' = Inr b"
  shows "update_config e cf doc resp w = (False, w) \<or>
         (\<exists>doc'. merge_config (clock_merge e) doc resp = Inr doc' \<and>
            update_config e cf doc resp w =
              (case write_fault e b of
                 OpenFails \<Rightarrow> (False, w\<lparr>opens := opens w @ [(b, OpenFails)]\<rparr>)
               | DumpFails \<Rightarrow>
                   (False, w\<lparr>opens := opens w @ [(b, DumpFails)],
                             files := (files w)(b \<mapsto> Garbage)\<rparr>)
               | WriteOk \<Rightarrow>
                   (case write_fault e cf of
                      OpenFails \<Rightarrow>
                        (False, w\<lparr>opens := opens w @ [(b, WriteOk), (cf, OpenFails)],
                                  files := (files w)(b \<mapsto> Json doc')\<rparr>)
                    | DumpFails \<Rightarrow>
                        (False, w\<lparr>opens := opens w @ [(b, WriteOk), (cf, DumpFails)],
                                  files := (files w)(b \<mapsto> Json doc', cf \<mapsto> Garbage)\<rparr>)
                    | WriteOk \<Rightarrow>
                        (True, w\<lparr>opens := opens w @ [(b, WriteOk), (cf, WriteOk)],
                                 files := (files w)(b \<mapsto> Json doc', cf \<mapsto> Json doc')\<rparr>))))"
  using assms unfolding update_config_def write_files_def
  by (auto simp add: write_json_cases split: sum.splits write_fault.splits)

lemma finish_cases:
  assumes "with_suffix cf ''.json.backup'' = Inr b" and "b \<noteq> cf"
  shows "finish e cf doc resp w = (Returned False, w) \<or>
         (\<exists>doc'. merge_config (clock_merge e) doc resp = Inr doc' \<and>
            ((write_fault e b \<noteq> WriteOk \<and> fst (finish e cf doc resp w) = Returned False \<and>
              opens (snd (finish e cf doc resp w)) = opens w @ [(b, write_fault e b)] \<and>
              files (snd (finish e cf doc resp w)) cf = files w cf \<and>
              posts (snd (finish e cf doc resp w)) = posts w) \<or>
             (write_fault e b = WriteOk \<and> write_fault e cf \<noteq> WriteOk \<and>
              fst (finish e cf doc resp w) = Returned False \<and>
              opens (snd (finish e cf doc resp w)) =
                opens w @ [(b, WriteOk), (cf, write_fault e cf)] \<and>
              posts (snd (finish e cf doc resp w)) = posts w) \<or>
             (write_fault e b = WriteOk \<and> write_fault e cf = WriteOk \<and>
              fst (finish e cf doc resp w) \<noteq> Returned False \<and>
              opens (snd (finish e cf doc resp w)) = opens w @ [(b, WriteOk), (cf, WriteOk)] \<and>
              files (snd (finish e cf doc resp w)) b = Some (Json doc') \<and>
              files (snd (finish e cf doc resp w)) cf = Some (Json doc') \<and>
              posts (snd (finish e cf doc resp w)) = posts w)))"
  using update_config_cases [OF assms(1), of e doc resp w] assms(2)
proof (elim disjE exE conjE)
  assume "update_config e cf doc resp w = (False, w)"
  then show ?thesis by (simp add: finish_def)
next
  fix doc'
  assume m: "merge_config (clock_merge e) doc resp = Inr doc'"
    and u: "update_config e cf doc resp w =
              (case write_fault e b of
                 OpenFails \<Rightarrow> (False, w\<lparr>opens := opens w @ [(b, OpenFails)]\<rparr>)
               | DumpFails \<Rightarrow>
                   (False, w\<lparr>opens := opens w @ [(b, DumpFails)],
                             files := (files w)(b \<mapsto> Garbage)\<rparr>)
               | WriteOk \<Rightarrow>
                   (case write_fault e cf of
                      OpenFails \<Rightarrow>
                        (False, w\<lparr>opens := opens w @ [(b, WriteOk), (cf, OpenFails)],
                                  files := (files w)(b \<mapsto> Json doc')\<rparr>)
                    | DumpFails \<Rightarrow>
                        (False, w\<lparr>opens := opens w @ [(b, WriteOk), (cf, DumpFails)],
                                  files := (files w)(b \<mapsto> Json doc', cf \<mapsto> Garbage)\<rparr>)
                    | WriteOk \<Rightarrow>
                        (True, w\<lparr>opens := opens w @ [(b, WriteOk), (cf, WriteOk)],
                                 files := (files w)(b \<mapsto> Json doc', cf \<mapsto> Json doc')\<rparr>)))"
  have "(write_fault e b \<noteq> WriteOk \<and> fst (finish e cf doc resp w) = Returned False \<and>
              opens (snd (finish e cf doc resp w)) = opens w @ [(b, write_fault e b)] \<and>
              files (snd (finish e cf doc resp w)) cf = files w cf \<and>
              posts (snd (finish e cf doc resp w)) = posts w) \<or>
             (write_fault e b = WriteOk \<and> write_fault e cf \<noteq> WriteOk \<and>
              fst (finish e cf doc resp w) = Returned False \<and>
              opens (snd (finish e cf doc resp w)) =
                opens w @ [(b, WriteOk), (cf, write_fault e cf)] \<and>
              posts (snd (finish e cf doc resp w)) = posts w) \<or>
             (write_fault e b = WriteOk \<and> write_fault e cf = WriteOk \<and>
              fst (finish e cf doc resp w) \<noteq> Returned False \<and>
              opens (snd (finish e cf doc resp w)) = opens w @ [(b, WriteOk), (cf, WriteOk)] \<and>
              files (snd (finish e cf doc resp w)) b = Some (Json doc') \<and>
              files (snd (finish e cf doc resp w)) cf = Some (Json doc') \<and>
              posts (snd (finish e cf doc resp w)) = posts w)"
    using \<open>b \<noteq> cf\<close>
    by (cases "write_fault e b"; cases "write_fault e cf")
       (simp_all add: finish_def u split: sum.splits)
  with m show ?thesis by blast
qed

section \<open>The claims about a run\<close>

text \<open>
  C5. In a run whose attempt to write the backup file fails (the file cannot
  be opened, or the dump breaks off), the primary file is never opened for
  writing, its content after the run is its content before, and the exit
  status is 1.
\<close>

theorem C5_backup_failure:
  assumes "find_claude_config e w = Some cf"
    and "with_suffix cf ''.json.backup'' = Inr b"
    and "opens w = []"
    and "(b, f) \<in> set (opens (snd (run e force w)))"
    and "f \<noteq> WriteOk"
  shows "files (snd (run e force w)) cf = files w cf \<and>
         cf \<notin> fst ` set (opens (snd (run e force w))) \<and>
         exit_status (fst (run e force w)) = 1"
proof -
  from find_claude_config_in(1) [OF assms(1)] have "cf \<in> set (search_paths e)" .
  from backup_of_found [OF this] assms(2) have ne: "b \<noteq> cf"
    by simp
  from run_cases [of e force w] show ?thesis
  proof (elim disjE exE conjE)
    fix out assume "run e force w = (out, w)"
    with assms(3,4) show ?thesis by simp
  next
    fix rt
    assume "run e force w =
      (Returned False, w\<lparr>posts := posts w @ [(CLAUDE_TOKEN_URL, refresh_payload rt)]\<rparr>)"
    with assms(3,4) show ?thesis by simp
  next
    fix cf' doc rt resp
    assume l: "load_config e w = Some (cf', doc)"
      and r: "run e force w =
        finish e cf' doc resp (w\<lparr>posts := posts w @ [(CLAUDE_TOKEN_URL, refresh_payload rt)]\<rparr>)"
    from load_config_Some(1) [OF l] assms(1) have c: "cf' = cf" by simp
    from finish_cases [OF assms(2) ne, of e doc resp
        "w\<lparr>posts := posts w @ [(CLAUDE_TOKEN_URL, refresh_payload rt)]\<rparr>"]
      assms(3,4,5) ne
    show ?thesis
      unfolding r c by (elim disjE exE conjE) auto
  qed
qed


theorem C5_backup_failure_witness:
  "find_claude_config (test_env (HttpResponse 200 (Some resp_scenario)) 5000 backup_fails)
     (test_world doc_scenario) = Some cfg_path \<and>
   with_suffix cfg_path ''.json.backup'' = Inr backup_path \<and>
   (backup_path, DumpFails) \<in> set (opens (snd (run
      (test_env (HttpResponse 200 (Some resp_scenario)) 5000 backup_fails) False
      (test_world doc_scenario)))) \<and>
   files (snd (run (test_env (HttpResponse 200 (Some resp_scenario)) 5000 backup_fails) False
      (test_world doc_scenario))) cfg_path = Some (Json doc_scenario) \<and>
   exit_status (fst (run (test_env (HttpResponse 200 (Some resp_scenario)) 5000 backup_fails)
      False (test_world doc_scenario))) = 1"
proof -
  have fc: "find_claude_config (test_env (HttpResponse 200 (Some resp_scenario)) 5000 backup_fails)
     (test_world doc_scenario) = Some cfg_path"
    by (simp add: run_defs example_defs)
  have ws: "with_suffix cfg_path ''.json.backup'' = Inr backup_path"
    by (simp add: program_defs example_defs)
  have op: "opens (test_world doc_scenario) = []"
    by (simp add: test_world_def)
  have mem: "(backup_path, DumpFails) \<in> set (opens (snd (run
      (test_env (HttpResponse 200 (Some resp_scenario)) 5000 backup_fails) False
      (test_world doc_scenario))))"
    by (simp add: run_defs program_defs example_defs)
  have before: "files (test_world doc_scenario) cfg_path = Some (Json doc_scenario)"
    by (simp add: test_world_def)
  from C5_backup_failure [OF fc ws op mem] fc ws mem before show ?thesis
    by simp
qed

lemma posts_finish: "posts (snd (finish e cf doc resp w)) = posts w"
  unfolding finish_def update_config_def write_files_def
  by (auto simp add: write_json_cases split: sum.splits write_fault.splits prod.splits)

text \<open>
  C10. After a run that sent the refresh request and returned True, the backup
  file and the primary file hold the same document, the one \<open>merge_config\<close>
  made of the loaded document: the merge comes before both writes.
\<close>

theorem C10_backup_equals_primary:
  assumes "fst (run e force w) = Returned True"
    and "posts (snd (run e force w)) \<noteq> posts w"
  shows "\<exists>cf doc b resp doc'.
           load_config e w = Some (cf, doc) \<and>
           with_suffix cf ''.json.backup'' = Inr b \<and>
           (\<exists>rt. endpoint e (refresh_payload rt) = HttpResponse 200 (Some resp)) \<and>
           merge_config (clock_merge e) doc resp = Inr doc' \<and>
           files (snd (run e force w)) b = Some (Json doc') \<and>
           files (snd (run e force w)) cf = Some (Json doc')"
  using run_cases [of e force w]
proof (elim disjE exE conjE)
  fix out assume "run e force w = (out, w)"
  with assms(2) show ?thesis by simp
next
  fix rt
  assume "run e force w =
      (Returned False, w\<lparr>posts := posts w @ [(CLAUDE_TOKEN_URL, refresh_payload rt)]\<rparr>)"
  with assms(1) show ?thesis by simp
next
  fix cf doc rt resp
  assume l: "load_config e w = Some (cf, doc)"
    and a: "endpoint e (refresh_payload rt) = HttpResponse 200 (Some resp)"
    and r: "run e force w =
        finish e cf doc resp (w\<lparr>posts := posts w @ [(CLAUDE_TOKEN_URL, refresh_payload rt)]\<rparr>)"
  from load_config_Some(1) [OF l] have "cf \<in> set (search_paths e)"
    by (rule find_claude_config_in(1))
  note b = backup_of_found [OF this]
  from finish_cases [OF b, of e doc resp
      "w\<lparr>posts := posts w @ [(CLAUDE_TOKEN_URL, refresh_payload rt)]\<rparr>"] assms(1)
  obtain doc' where "merge_config (clock_merge e) doc resp = Inr doc'"
    and "files (snd (run e force w)) (butlast cf @ [last cf @ ''.backup'']) = Some (Json doc')"
    and "files (snd (run e force w)) cf = Some (Json doc')"
    unfolding r by auto
  with l b(1) a show ?thesis by blast
qed

theorem C10_backup_equals_primary_witness:
  "fst (run (test_env (HttpResponse 200 (Some resp_scenario)) 5000 (\<lambda>p. WriteOk)) False
          (test_world doc_scenario)) = Returned True \<and>
   posts (snd (run (test_env (HttpResponse 200 (Some resp_scenario)) 5000 (\<lambda>p. WriteOk)) False
          (test_world doc_scenario))) \<noteq> posts (test_world doc_scenario) \<and>
   (\<exists>cf doc b resp doc'.
      load_config (test_env (HttpResponse 200 (Some resp_scenario)) 5000 (\<lambda>p. WriteOk))
        (test_world doc_scenario) = Some (cf, doc) \<and>
      with_suffix cf ''.json.backup'' = Inr b \<and>
      (\<exists>rt. endpoint (test_env (HttpResponse 200 (Some resp_scenario)) 5000 (\<lambda>p. WriteOk))
         (refresh_payload rt) = HttpResponse 200 (Some resp)) \<and>
      merge_config (clock_merge (test_env (HttpResponse 200 (Some resp_scenario)) 5000
        (\<lambda>p. WriteOk))) doc resp = Inr doc' \<and>
      files (snd (run (test_env (HttpResponse 200 (Some resp_scenario)) 5000 (\<lambda>p. WriteOk))
        False (test_world doc_scenario))) b = Some (Json doc') \<and>
      files (snd (run (test_env (HttpResponse 200 (Some resp_scenario)) 5000 (\<lambda>p. WriteOk))
        False (test_world doc_scenario))) cf = Some (Json doc'))"
proof -
  have h1: "fst (run (test_env (HttpResponse 200 (Some resp_scenario)) 5000 (\<lambda>p. WriteOk)) False
          (test_world doc_scenario)) = Returned True"
    by (simp add: run_defs program_defs example_defs)
  have h2: "posts (snd (run (test_env (HttpResponse 200 (Some resp_scenario)) 5000 (\<lambda>p. WriteOk))
          False (test_world doc_scenario))) \<noteq> posts (test_world doc_scenario)"
    by (simp add: run_defs program_defs example_defs)
  from C10_backup_equals_primary [OF h1 h2] h1 h2 show ?thesis
    by blast
qed

lemma check_expiry_expired:
  assumes "field rec ''expiresAt'' = None \<or>
           (\<exists>x. field rec ''expiresAt'' = Some (JInt x) \<and>
                (x \<le> 0 \<or> (x < clock_check e \<and> datetime_ok e x)))"
    and "field rec ''refreshToken'' = Some rt"
  shows "check_expiry e rec = Inr True"
proof -
  from assms(2) obtain kvs where "rec = JObj kvs" by (cases rec) auto
  with assms(1) show ?thesis
    by (auto simp add: check_expiry_def is_token_expired_def)
qed

text \<open>
  C3, as stated, fails twice. A stored \<^verbatim>\<open>expiresAt\<close> equal to the current time
  does not count as expired (line 122 compares with \<^verbatim>\<open>>\<close>), so without the
  force flag no request is sent; and a record whose refresh token is the empty
  string stops the run at line 267 before any request, whatever the flag.
\<close>

theorem C3_one_refresh_call_counterexample:
  "get_oauth_config doc_scenario =
     Inr (Some (JObj [(''refreshToken'', JStr ''R1''), (''expiresAt'', JInt 1000)])) \<and>
   clock_check (test_env (HttpResponse 200 (Some resp_scenario)) 1000 (\<lambda>p. WriteOk)) = 1000 \<and>
   run (test_env (HttpResponse 200 (Some resp_scenario)) 1000 (\<lambda>p. WriteOk)) False
     (test_world doc_scenario) = (Returned True, test_world doc_scenario) \<and>
   posts (test_world doc_scenario) = [] \<and>
   get_oauth_config doc_empty_token = Inr (Some (JObj [(''refreshToken'', JStr [])])) \<and>
   run (test_env (HttpResponse 200 (Some resp_scenario)) 1000 (\<lambda>p. WriteOk)) True
     (test_world doc_empty_token) = (Returned False, test_world doc_empty_token) \<and>
   posts (test_world doc_empty_token) = []"
  by (simp add: run_defs program_defs example_defs)

text \<open>
  C3, amended. A run that loads a document whose extracted record holds a
  refresh token that is not empty, and whose stored \<^verbatim>\<open>expiresAt\<close> is absent,
  zero or negative, or strictly less than the current time (and a time that
  \<^verbatim>\<open>datetime.fromtimestamp\<close> accepts), sends exactly one refresh request,
  with that refresh token, whatever the force flag.
\<close>

theorem C3_one_refresh_call:
  assumes "load_config e w = Some (cf, doc)"
    and "get_oauth_config doc = Inr (Some rec)"
    and "field rec ''refreshToken'' = Some rt"
    and "truthy rt"
    and "field rec ''expiresAt'' = None \<or>
         (\<exists>x. field rec ''expiresAt'' = Some (JInt x) \<and>
              (x \<le> 0 \<or> (x < clock_check e \<and> datetime_ok e x)))"
  shows "posts (snd (run e force w)) = posts w @ [(CLAUDE_TOKEN_URL, refresh_payload rt)]"
proof -
  from assms(3) obtain kvs where r: "rec = JObj kvs" and m: "map_of kvs ''refreshToken'' = Some rt"
    by (cases rec) auto
  from m have t: "truthy rec" unfolding r by (cases kvs) auto
  have g: "py_get rec ''refreshToken'' JNull = Inr rt"
    unfolding r by (simp add: m)
  note c = check_expiry_expired [OF assms(5) assms(3)]
  show ?thesis
    unfolding run_def
    by (simp add: assms(1,2,4) t g c refresh_token_def Let_def posts_finish
          split: http_result.splits option.splits)
qed

theorem C3_one_refresh_call_witness:
  "load_config (test_env TransportError 5000 (\<lambda>p. WriteOk)) (test_world doc_scenario) =
     Some (cfg_path, doc_scenario) \<and>
   get_oauth_config doc_scenario =
     Inr (Some (JObj [(''refreshToken'', JStr ''R1''), (''expiresAt'', JInt 1000)])) \<and>
   posts (snd (run (test_env TransportError 5000 (\<lambda>p. WriteOk)) False
     (test_world doc_scenario))) = [(CLAUDE_TOKEN_URL, refresh_payload (JStr ''R1''))]"
proof -
  have l: "load_config (test_env TransportError 5000 (\<lambda>p. WriteOk)) (test_world doc_scenario) =
     Some (cfg_path, doc_scenario)"
    by (simp add: run_defs example_defs)
  have g: "get_oauth_config doc_scenario =
     Inr (Some (JObj [(''refreshToken'', JStr ''R1''), (''expiresAt'', JInt 1000)]))"
    by (simp add: run_defs program_defs example_defs)
  have f: "field (JObj [(''refreshToken'', JStr ''R1''), (''expiresAt'', JInt 1000)])
             ''refreshToken'' = Some (JStr ''R1'')"
    by simp
  have t: "truthy (JStr ''R1'')"
    by simp
  have x: "field (JObj [(''refreshToken'', JStr ''R1''), (''expiresAt'', JInt 1000)])
             ''expiresAt'' = None \<or>
           (\<exists>x. field (JObj [(''refreshToken'', JStr ''R1''), (''expiresAt'', JInt 1000)])
                   ''expiresAt'' = Some (JInt x) \<and>
                (x \<le> 0 \<or> (x < clock_check (test_env TransportError 5000 (\<lambda>p. WriteOk)) \<and>
                   datetime_ok (test_env TransportError 5000 (\<lambda>p. WriteOk)) x)))"
    by (simp add: test_env_def)
  have p: "posts (test_world doc_scenario) = []"
    by (simp add: test_world_def)
  from C3_one_refresh_call [OF l g f t x, of False] l g show ?thesis
    unfolding p by simp
qed

text \<open>
  A token that is still valid: with a stored \<^verbatim>\<open>expiresAt\<close> after the current
  time, a time that \<^verbatim>\<open>datetime.fromtimestamp\<close> accepts, and no force flag, the
  run returns True and leaves the world as it was.
\<close>

lemma run_token_still_valid:
  assumes "load_config e w = Some (cf, doc)"
    and "get_oauth_config doc = Inr (Some rec)"
    and "field rec ''expiresAt'' = Some (JInt x)"
    and "clock_check e < x"
    and "0 \<le> clock_check e"
    and "datetime_ok e x"
  shows "run e False w = (Returned True, w)"
proof -
  from assms(3) obtain kvs where r: "rec = JObj kvs" and m: "map_of kvs ''expiresAt'' = Some (JInt x)"
    by (cases rec) auto
  from m have t: "truthy rec" unfolding r by (cases kvs) auto
  from assms(4,5,6) m have c: "check_expiry e rec = Inr False"
    unfolding r by (simp add: check_expiry_def is_token_expired_def)
  show ?thesis
    unfolding run_def by (simp add: assms(1,2) t c)
qed

text \<open>
  C8 at a stored \<^verbatim>\<open>expiresAt\<close> of 10^18 milliseconds, after the current time,
  without the force flag: line 253 makes a date of it for the report,
  \<^verbatim>\<open>datetime.fromtimestamp\<close> raises ValueError (the year is beyond 9999), nothing
  catches it, and the process ends with status 1. No request is sent and no file
  is written.
\<close>

theorem C8_far_expiry_exit_status:
  "load_config (test_env (HttpResponse 200 (Some resp_scenario)) 1700000000000 (\<lambda>p. WriteOk))
     (test_world doc_far_expiry) = Some (cfg_path, doc_far_expiry) \<and>
   record_field doc_far_expiry ''claudeAiOauth'' ''expiresAt'' =
     Some (JInt 1000000000000000000) \<and>
   clock_check (test_env (HttpResponse 200 (Some resp_scenario)) 1700000000000 (\<lambda>p. WriteOk)) <
     1000000000000000000 \<and>
   run (test_env (HttpResponse 200 (Some resp_scenario)) 1700000000000 (\<lambda>p. WriteOk)) False
     (test_world doc_far_expiry) = (Raised ValueError, test_world doc_far_expiry) \<and>
   exit_status (fst (run (test_env (HttpResponse 200 (Some resp_scenario)) 1700000000000
     (\<lambda>p. WriteOk)) False (test_world doc_far_expiry))) = 1"
  by (simp add: run_defs program_defs example_defs)

text \<open>
  C1 at a document whose \<^verbatim>\<open>claudeAiOauth\<close> record has no refresh token while
  its \<^verbatim>\<open>oauth\<close> record has one: \<open>get_oauth_config\<close> returns the \<^verbatim>\<open>oauth\<close>
  record, whose token the request carries, and \<open>update_config\<close> resolves
  \<^verbatim>\<open>claudeAiOauth\<close>, the first key present, and writes the new tokens there,
  with a null refresh token; the \<^verbatim>\<open>oauth\<close> record is persisted as it was.
\<close>

theorem C1_key_mismatch:
  "get_oauth_config doc_two_keys = Inr (Some (JObj [(''refreshToken'', JStr ''R1'')])) \<and>
   field doc_two_keys ''oauth'' = Some (JObj [(''refreshToken'', JStr ''R1'')]) \<and>
   resolve_oauth_key doc_two_keys = Inr (''claudeAiOauth'', doc_two_keys) \<and>
   fst (run (test_env (HttpResponse 200 (Some resp_scenario)) 5000 (\<lambda>p. WriteOk)) False
     (test_world doc_two_keys)) = Returned True \<and>
   posts (snd (run (test_env (HttpResponse 200 (Some resp_scenario)) 5000 (\<lambda>p. WriteOk)) False
     (test_world doc_two_keys))) = [(CLAUDE_TOKEN_URL, refresh_payload (JStr ''R1''))] \<and>
   files (snd (run (test_env (HttpResponse 200 (Some resp_scenario)) 5000 (\<lambda>p. WriteOk)) False
     (test_world doc_two_keys))) cfg_path =
     Some (Json (JObj
       [(''claudeAiOauth'',
         JObj [(''accessToken'', JStr ''A2''), (''refreshToken'', JNull),
               (''expiresAt'', JInt 3605001), (''scopes'', JList [])]),
        (''oauth'', JObj [(''refreshToken'', JStr ''R1'')])]))"
  by (simp add: run_defs program_defs example_defs)

text \<open>
  C2 at the end-to-end scenario of the specification: the run succeeds, the
  backup path is the located path with \<^verbatim>\<open>.json.backup\<close> for its last suffix, the
  backup is written before the primary file, and it holds the document after
  the merge, which differs from the original document.
\<close>

theorem C2_backup_holds_merged_document:
  "with_suffix cfg_path ''.json.backup'' = Inr backup_path \<and>
   files (test_world doc_scenario) cfg_path = Some (Json doc_scenario) \<and>
   fst (run (test_env (HttpResponse 200 (Some resp_scenario)) 5000 (\<lambda>p. WriteOk)) False
     (test_world doc_scenario)) = Returned True \<and>
   opens (snd (run (test_env (HttpResponse 200 (Some resp_scenario)) 5000 (\<lambda>p. WriteOk)) False
     (test_world doc_scenario))) = [(backup_path, WriteOk), (cfg_path, WriteOk)] \<and>
   files (snd (run (test_env (HttpResponse 200 (Some resp_scenario)) 5000 (\<lambda>p. WriteOk)) False
     (test_world doc_scenario))) backup_path = Some (Json (doc_after_scenario 5001)) \<and>
   doc_after_scenario 5001 \<noteq> doc_scenario"
  by (simp add: run_defs program_defs example_defs)

lemma run_token_still_valid_example:
  "run (test_env TransportError 500 (\<lambda>p. WriteOk)) False (test_world doc_scenario) =
     (Returned True, test_world doc_scenario)"
proof -
  have l: "load_config (test_env TransportError 500 (\<lambda>p. WriteOk)) (test_world doc_scenario) =
     Some (cfg_path, doc_scenario)"
    by (simp add: run_defs example_defs)
  have g: "get_oauth_config doc_scenario =
     Inr (Some (JObj [(''refreshToken'', JStr ''R1''), (''expiresAt'', JInt 1000)]))"
    by (simp add: run_defs program_defs example_defs)
  have f: "field (JObj [(''refreshToken'', JStr ''R1''), (''expiresAt'', JInt 1000)])
             ''expiresAt'' = Some (JInt 1000)"
    by simp
  show ?thesis
    by (rule run_token_still_valid [OF l g f]) (simp_all add: test_env_def)
qed

end
